theory Spec2Isabelle
  imports
    Complex_Main
    "HOL-Library.Char_ord"
    "HOL-Library.List_Lexorder"
    "HOL-Library.Sublist"
begin

section \<open>Shared vocabulary: exceptions, events, Python values\<close>

text \<open>
  The model follows \<^verbatim>\<open>src/shade/openstackcloud.py\<close>. A definition has the name of the function
  it translates; a leading underscore of a Python name is written \<open>u_\<close>, since an Isabelle
  name starts with a letter: \<^verbatim>\<open>_list_servers\<close> is \<open>u_list_servers\<close>. The text before a
  definition quotes the source it translates and says what its parameters stand for.
\<close>

text \<open>
  Every exception class that \<^verbatim>\<open>shade/openstackcloud.py\<close> raises, catches or lets through is a
  constructor of \<open>error\<close>; a function of the model that can raise returns
  \<open>error + 'a\<close> with \<open>Inl\<close> for the exception. The first five constructors are the
  classes of \<^verbatim>\<open>shade.exc\<close>; \<open>OpenStackException\<close> is the name \<^verbatim>\<open>_delete_server\<close> raises;
  the others are the client libraries' and Python's own exceptions.
\<close>

datatype error =
    OpenStackCloudException string
  | OpenStackCloudTimeout string
  | OpenStackCloudURINotFound string
  | OpenStackCloudResourceNotFound string
  | OpenStackCloudUnavailableFeature string
  | OpenStackException string
  | NovaNotFound string
  | HTTPServiceUnavailable string
  | HTTPInternalServerError string
  | AttributeError string
  | TypeError string
  | OtherError string

text \<open>\<^verbatim>\<open>str(e)\<close>: the message an exception carries.\<close>

fun exc_str :: "error \<Rightarrow> string" where
  "exc_str (OpenStackCloudException m) = m"
| "exc_str (OpenStackCloudTimeout m) = m"
| "exc_str (OpenStackCloudURINotFound m) = m"
| "exc_str (OpenStackCloudResourceNotFound m) = m"
| "exc_str (OpenStackCloudUnavailableFeature m) = m"
| "exc_str (OpenStackException m) = m"
| "exc_str (NovaNotFound m) = m"
| "exc_str (HTTPServiceUnavailable m) = m"
| "exc_str (HTTPInternalServerError m) = m"
| "exc_str (AttributeError m) = m"
| "exc_str (TypeError m) = m"
| "exc_str (OtherError m) = m"

text \<open>
  \<^verbatim>\<open>except OpenStackCloudException\<close> catches the class and its subclasses (timeout, URI not
  found, resource not found, unavailable feature).
\<close>

fun is_OpenStackCloudException :: "error \<Rightarrow> bool" where
  "is_OpenStackCloudException (OpenStackCloudException m) = True"
| "is_OpenStackCloudException (OpenStackCloudTimeout m) = True"
| "is_OpenStackCloudException (OpenStackCloudURINotFound m) = True"
| "is_OpenStackCloudException (OpenStackCloudResourceNotFound m) = True"
| "is_OpenStackCloudException (OpenStackCloudUnavailableFeature m) = True"
| "is_OpenStackCloudException e = False"

text \<open>The tests behind the \<^verbatim>\<open>except\<close> clauses for one class.\<close>

fun is_OpenStackCloudURINotFound :: "error \<Rightarrow> bool" where
  "is_OpenStackCloudURINotFound (OpenStackCloudURINotFound m) = True"
| "is_OpenStackCloudURINotFound e = False"

fun is_OpenStackCloudResourceNotFound :: "error \<Rightarrow> bool" where
  "is_OpenStackCloudResourceNotFound (OpenStackCloudResourceNotFound m) = True"
| "is_OpenStackCloudResourceNotFound e = False"

fun is_NovaNotFound :: "error \<Rightarrow> bool" where
  "is_NovaNotFound (NovaNotFound m) = True"
| "is_NovaNotFound e = False"

fun is_HTTPServiceUnavailable :: "error \<Rightarrow> bool" where
  "is_HTTPServiceUnavailable (HTTPServiceUnavailable m) = True"
| "is_HTTPServiceUnavailable e = False"

fun is_HTTPInternalServerError :: "error \<Rightarrow> bool" where
  "is_HTTPInternalServerError (HTTPInternalServerError m) = True"
| "is_HTTPInternalServerError e = False"

text \<open>
  What a verb does that a caller cannot see in its return value: the tasks it submits
  through \<^verbatim>\<open>self.manager.submitTask\<close> (by task class name), the calls of other methods of
  the connection whose results the model takes as given (by method name), the debug lines
  it logs, the warnings it issues, the cache invalidations (\<^verbatim>\<open>self.list_volumes.invalidate(self)\<close> by method name,
  \<^verbatim>\<open>self._cache.invalidate()\<close> for the whole region), and the operations on
  \<^verbatim>\<open>self._servers_lock\<close> and on the server snapshot. A verb of the model returns the list of
  its events in program order.
\<close>

datatype event =
    Task string
  | Call string
  | LogDebug string
  | Warn string
  | Invalidate string
  | RegionInvalidate
  | LockAcquire bool
  | LockRelease
  | StoreServers
  | StoreServersTime

text \<open>
  The Python values that reach the cache-key generator as arguments of a memoized read:
  strings, booleans and \<^verbatim>\<open>None\<close>.
\<close>

datatype pyval = PStr string | PBool bool | PNone

text \<open>\<^verbatim>\<open>str(v)\<close>, which is what \<^verbatim>\<open>'%s' % v\<close> formats.\<close>

fun py_str :: "pyval \<Rightarrow> string" where
  "py_str (PStr s) = s"
| "py_str (PBool True) = ''True''"
| "py_str (PBool False) = ''False''"
| "py_str PNone = ''None''"

text \<open>\<^verbatim>\<open>sep.join(xs)\<close> on a list of strings.\<close>

fun join :: "string \<Rightarrow> string list \<Rightarrow> string" where
  "join sep [] = []"
| "join sep [x] = x"
| "join sep (x # y # ys) = x @ sep @ join sep (y # ys)"

text \<open>
  \<^verbatim>\<open>','.join(args)\<close> on the positional arguments: \<^verbatim>\<open>str.join\<close> raises \<^verbatim>\<open>TypeError\<close> at the
  first item that is not a string.
\<close>

fun strings_of :: "pyval list \<Rightarrow> error + string list" where
  "strings_of [] = Inr []"
| "strings_of (PStr s # vs) =
     (case strings_of vs of Inl e \<Rightarrow> Inl e | Inr ss \<Rightarrow> Inr (s # ss))"
| "strings_of (v # vs) = Inl (TypeError ''sequence item: expected string'')"

section \<open>The connection object\<close>

text \<open>
  The fields of \<^verbatim>\<open>OpenStackCloud\<close> that the cache key reads or that identify the
  connection: \<^verbatim>\<open>self.name\<close> and \<^verbatim>\<open>self.region_name\<close>, both set in \<^verbatim>\<open>__init__\<close> from the
  cloud configuration.
\<close>

record cloud =
  name :: string
  region_name :: string

section \<open>Cache keys (\<^verbatim>\<open>_make_cache_key\<close>)\<close>

text \<open>
  \<^verbatim>\<open>
  def _make_cache_key(self, namespace, fn):
      fname = fn.__name__
      if namespace is None:
          name_key = self.name
      else:
          name_key = '%s:%s' % (self.name, namespace)

      def generate_key(*args, **kwargs):
          arg_key = ','.join(args)
          kw_keys = sorted(kwargs.keys())
          kwargs_key = ','.join(
              ['%s:%s' % (k, kwargs[k]) for k in kw_keys if k != 'cache'])
          ans = "_".join(
              [str(name_key), fname, arg_key, kwargs_key])
          return ans
      return generate_key
  \<close>
  The keyword dictionary is an association list with distinct keys, in the order the
  caller wrote the keywords; \<^verbatim>\<open>kwargs[k]\<close> for a key of the dictionary is \<open>map_of\<close>.
  \<^verbatim>\<open>sorted\<close> on strings is the lexicographic order on characters.
\<close>

definition name_key :: "cloud \<Rightarrow> string option \<Rightarrow> string" where
  "name_key self namespace =
     (case namespace of
        None \<Rightarrow> name self
      | Some ns \<Rightarrow> name self @ '':'' @ ns)"

definition kw_item :: "(string \<times> pyval) list \<Rightarrow> string \<Rightarrow> string" where
  "kw_item kwargs k =
     (case map_of kwargs k of
        Some v \<Rightarrow> k @ '':'' @ py_str v
      | None \<Rightarrow> k @ '':'')"

definition kwargs_key :: "(string \<times> pyval) list \<Rightarrow> string" where
  "kwargs_key kwargs =
     join '','' (map (kw_item kwargs)
       (filter (\<lambda>k. k \<noteq> ''cache'') (sort (map fst kwargs))))"

definition generate_key ::
  "cloud \<Rightarrow> string option \<Rightarrow> string \<Rightarrow> pyval list \<Rightarrow> (string \<times> pyval) list \<Rightarrow> error + string"
where
  "generate_key self namespace fname args kwargs =
     (case strings_of args of
        Inl e \<Rightarrow> Inl e
      | Inr ss \<Rightarrow>
          Inr (join ''_'' [name_key self namespace, fname, join '','' ss, kwargs_key kwargs]))"

section \<open>Exception wrapping and bounded polling (helpers of \<^verbatim>\<open>shade/_utils.py\<close>)\<close>

text \<open>
  Modelled from the spec: \<^verbatim>\<open>_utils.shade_exceptions\<close>, the context manager around the backend
  calls, whose file is not among the sources. Section 7 of the specification: a raw backend
  failure is always wrapped before it crosses the core's boundary, and the errors of the
  taxonomy propagate as they are. So an \<^verbatim>\<open>OpenStackCloudException\<close> (or a subclass) passes
  unchanged and every other exception becomes an \<^verbatim>\<open>OpenStackCloudException\<close> with the
  message of the context manager.
\<close>

definition shade_exceptions :: "string \<Rightarrow> error + 'a \<Rightarrow> error + 'a" where
  "shade_exceptions error_message r =
     (case r of
        Inr v \<Rightarrow> Inr v
      | Inl e \<Rightarrow>
          if is_OpenStackCloudException e then Inl e
          else Inl (OpenStackCloudException error_message))"

text \<open>
  Modelled from the spec: \<^verbatim>\<open>_utils._iterate_timeout(timeout, message)\<close>, the generator that the
  wait loops iterate over, whose file is not among the sources. Sections 4.1 and 8 of the
  specification: the engine polls until a terminal classification or until \<open>timeout\<close> has
  elapsed, when it fails with the timeout error, at or after \<open>timeout\<close> and never before;
  a timeout of "no limit" (\<^verbatim>\<open>None\<close>) polls indefinitely.

  \<open>clock\<close> gives the readings of \<^verbatim>\<open>time.time()\<close> that the generator makes: \<open>clock 0\<close> when
  the loop starts, \<open>clock (Suc k)\<close> before iteration \<open>k\<close> of the loop body (iterations are
  counted from 0).
\<close>

definition timed_out :: "real option \<Rightarrow> (nat \<Rightarrow> real) \<Rightarrow> nat \<Rightarrow> bool" where
  "timed_out timeout clock k =
     (case timeout of
        None \<Rightarrow> False
      | Some t \<Rightarrow> \<not> (clock k < clock 0 + t))"

text \<open>
  What one run of the body of a \<^verbatim>\<open>for count in _utils._iterate_timeout(...)\<close> loop ends
  with: \<^verbatim>\<open>continue\<close> (or the end of the body), \<^verbatim>\<open>break\<close>, \<^verbatim>\<open>return\<close> or \<^verbatim>\<open>raise\<close>. \<open>'s\<close> is
  the local variables that the body assigns and that later iterations or the code after
  the loop read.
\<close>

datatype ('s, 'a) step = Continue 's | Break 's | Return 'a | Raise error

text \<open>
  Modelled from the spec: the \<^verbatim>\<open>for count in _utils._iterate_timeout(timeout, message)\<close> loop
  around a body, with the same reading of sections 4.1 and 8: before each iteration the
  generator reads the clock and raises the timeout error once \<open>timeout\<close> has elapsed.
  \<open>body k s\<close> is iteration \<open>k\<close> of the body on the local variables \<open>s\<close>,
  with the events it causes. The result is \<open>None\<close> when the loop runs forever; otherwise the
  exception raised (by the body, or the timeout), the local variables at a \<^verbatim>\<open>break\<close>, or the
  value returned, together with the events of all iterations in order.
\<close>

partial_function (option) iterate_timeout ::
  "real option \<Rightarrow> string \<Rightarrow> (nat \<Rightarrow> real) \<Rightarrow> (nat \<Rightarrow> 's \<Rightarrow> ('s, 'a) step \<times> event list) \<Rightarrow>
   nat \<Rightarrow> 's \<Rightarrow> event list \<Rightarrow> ((error + 's + 'a) \<times> event list) option"
where
  "iterate_timeout timeout message clock body k s tr =
     (if timed_out timeout clock (Suc k) then Some (Inl (OpenStackCloudTimeout message), tr)
      else
        (case body k s of
           (Continue s', evs) \<Rightarrow> iterate_timeout timeout message clock body (Suc k) s' (tr @ evs)
         | (Break s', evs) \<Rightarrow> Some (Inr (Inl s'), tr @ evs)
         | (Return a, evs) \<Rightarrow> Some (Inr (Inr a), tr @ evs)
         | (Raise e, evs) \<Rightarrow> Some (Inl e, tr @ evs)))"

declare iterate_timeout.simps [code]

section \<open>The server inventory (\<^verbatim>\<open>list_servers\<close>)\<close>

text \<open>
  A server descriptor, with what the verbs below read of it: \<^verbatim>\<open>server['id']\<close>, and the
  image id under \<^verbatim>\<open>server['image']['id']\<close> (\<open>None\<close> when \<^verbatim>\<open>server['image']\<close> or the id is
  empty, which is what "booted from volume" looks like). \<open>addresses\<close> stands for the rest
  of the descriptor, read only by the helpers of \<^verbatim>\<open>shade/meta.py\<close>.
\<close>

record server =
  server_id :: string
  server_image_id :: "string option"
  addresses :: "(string \<times> string) list"

text \<open>
  The fields of the connection that \<^verbatim>\<open>list_servers\<close> uses: \<^verbatim>\<open>self._servers\<close>,
  \<^verbatim>\<open>self._servers_time\<close>, \<^verbatim>\<open>self._SERVER_AGE\<close>, and whether \<^verbatim>\<open>self._servers_lock\<close> is held by
  another caller at the moment of the call.
\<close>

record inventory =
  servers :: "server list"
  servers_time :: real
  SERVER_AGE :: real
  servers_lock :: bool

text \<open>
  What a call comes to: it returns, it raises, or it is suspended in a blocking
  \<^verbatim>\<open>acquire\<close> of a lock that another caller holds.
\<close>

datatype 'a outcome = Returns 'a | Raises error | Blocks

text \<open>
  \<^verbatim>\<open>threading.Lock.acquire(blocking)\<close> when the lock is held by another caller or not: a free
  lock is taken (\<^verbatim>\<open>True\<close>); a held lock makes a non-blocking caller return \<^verbatim>\<open>False\<close> at once
  and suspends a blocking caller (\<open>None\<close>: no return value while the lock is held).
\<close>

definition lock_acquire :: "bool \<Rightarrow> bool \<Rightarrow> bool option" where
  "lock_acquire blocking held =
     (if \<not> held then Some True
      else if blocking then None
      else Some False)"

text \<open>
  \<^verbatim>\<open>
  def _list_servers(self, detailed=False):
      with _utils.shade_exceptions("Error fetching server list on {cloud}:{region}:"...):
          servers = _utils.normalize_servers(
              self.manager.submitTask(_tasks.ServerList()), ...)
          if detailed:
              return [meta.get_hostvars_from_server(self, server) for server in servers]
          else:
              return servers
  \<close>
  \<open>resp\<close> is what the \<^verbatim>\<open>ServerList\<close> task gives after normalization (or the exception it
  raises); \<open>get_hostvars_from_server\<close> is the helper of \<^verbatim>\<open>shade/meta.py\<close>, a parameter.
\<close>

definition u_list_servers ::
  "cloud \<Rightarrow> (server \<Rightarrow> server) \<Rightarrow> error + server list \<Rightarrow> bool \<Rightarrow> (error + server list) \<times> event list"
where
  "u_list_servers self get_hostvars_from_server resp detailed =
     (shade_exceptions
        (''Error fetching server list on '' @ name self @ '':'' @ region_name self @ '':'')
        (case resp of
           Inl e \<Rightarrow> Inl e
         | Inr ss \<Rightarrow>
             if detailed then Inr (map get_hostvars_from_server ss)
             else Inr ss),
      [Task ''ServerList''])"

text \<open>
  \<^verbatim>\<open>
  def list_servers(self, detailed=False):
      if (time.time() - self._servers_time) >= self._SERVER_AGE:
          if self._servers_lock.acquire(len(self._servers) == 0):
              try:
                  self._servers = self._list_servers(detailed=detailed)
                  self._servers_time = time.time()
              finally:
                  self._servers_lock.release()
      return self._servers
  \<close>
  \<open>now\<close> is the reading of \<^verbatim>\<open>time.time()\<close> in the condition and \<open>now'\<close> the one after the
  fetch. First the part under the lock, which a caller runs once it has the lock.
\<close>

definition list_servers_refresh ::
  "cloud \<Rightarrow> (server \<Rightarrow> server) \<Rightarrow> error + server list \<Rightarrow> real \<Rightarrow> bool \<Rightarrow> inventory \<Rightarrow>
   server list outcome \<times> inventory \<times> event list"
where
  "list_servers_refresh self get_hostvars_from_server resp now' detailed st =
     (case u_list_servers self get_hostvars_from_server resp detailed of
        (Inl e, evs) \<Rightarrow> (Raises e, st, evs @ [LockRelease])
      | (Inr ss, evs) \<Rightarrow>
          (Returns ss,
           st\<lparr>servers := ss, servers_time := now'\<rparr>,
           evs @ [StoreServers, StoreServersTime, LockRelease]))"

definition list_servers ::
  "cloud \<Rightarrow> (server \<Rightarrow> server) \<Rightarrow> real \<Rightarrow> error + server list \<Rightarrow> real \<Rightarrow> bool \<Rightarrow> inventory \<Rightarrow>
   server list outcome \<times> inventory \<times> event list"
where
  "list_servers self get_hostvars_from_server now resp now' detailed st =
     (if now - servers_time st \<ge> SERVER_AGE st then
        (case lock_acquire (length (servers st) = 0) (servers_lock st) of
           None \<Rightarrow> (Blocks, st, [LockAcquire (length (servers st) = 0)])
         | Some False \<Rightarrow> (Returns (servers st), st, [LockAcquire (length (servers st) = 0)])
         | Some True \<Rightarrow>
             (case list_servers_refresh self get_hostvars_from_server resp now' detailed st of
                (out, st', evs) \<Rightarrow> (out, st', LockAcquire (length (servers st) = 0) # evs)))
      else (Returns (servers st), st, []))"

section \<open>Floating IPs on two backends\<close>

text \<open>
  A normalized floating IP, with what the verbs read of it: \<^verbatim>\<open>floating_ip['id']\<close> and
  \<^verbatim>\<open>floating_ip['floating_ip_address']\<close>.
\<close>

record floating_ip =
  fip_id :: string
  floating_ip_address :: string

text \<open>
  The line every dual-backend verb logs when it gives up on neutron:
  \<^verbatim>\<open>"Something went wrong talking to neutron API: '{msg}'. Trying with Nova.".format(msg=str(e))\<close>
\<close>

definition trying_with_nova :: "error \<Rightarrow> string" where
  "trying_with_nova e =
     ''Something went wrong talking to neutron API: '' @ [CHR 0x27] @ exc_str e @ [CHR 0x27]
       @ ''. Trying with Nova.''"

text \<open>
  \<^verbatim>\<open>
  def list_floating_ips(self):
      if self.has_service('network'):
          try:
              return _utils.normalize_neutron_floating_ips(
                  self._neutron_list_floating_ips())
          except OpenStackCloudURINotFound as e:
              self.log.debug(
                  "Something went wrong talking to neutron API: "
                  "'{msg}'. Trying with Nova.".format(msg=str(e)))
              # Fall-through, trying with Nova

      floating_ips = self._nova_list_floating_ips()
      return _utils.normalize_nova_floating_ips(floating_ips)

  def _nova_list_floating_ips(self):
      with _utils.shade_exceptions("Error fetching floating IPs list"):
          return self.manager.submitTask(_tasks.NovaFloatingIPList())
  \<close>
  In this and the next verbs, \<open>has_network\<close> is \<^verbatim>\<open>self.has_service('network')\<close>; \<open>neutron\<close>
  is what the \<^verbatim>\<open>_neutron_...\<close> method gives: its value, or the exception that leaves its
  \<^verbatim>\<open>with _utils.neutron_exceptions(...)\<close> block; \<open>nova\<close> is what the nova task (or method) gives.
  The normalizers of \<^verbatim>\<open>shade/_utils.py\<close> are parameters that map one raw item to one
  descriptor.
\<close>

definition u_nova_list_floating_ips :: "error + 'b list \<Rightarrow> (error + 'b list) \<times> event list" where
  "u_nova_list_floating_ips nova =
     (shade_exceptions ''Error fetching floating IPs list'' nova, [Task ''NovaFloatingIPList''])"

definition list_floating_ips ::
  "('a \<Rightarrow> floating_ip) \<Rightarrow> ('b \<Rightarrow> floating_ip) \<Rightarrow> bool \<Rightarrow> error + 'a list \<Rightarrow> error + 'b list \<Rightarrow>
   (error + floating_ip list) \<times> event list"
where
  "list_floating_ips normalize_neutron normalize_nova has_network neutron nova =
     (let via_nova = (\<lambda>evs.
            case u_nova_list_floating_ips nova of
              (Inl e, evs') \<Rightarrow> (Inl e, evs @ evs')
            | (Inr floating_ips, evs') \<Rightarrow> (Inr (map normalize_nova floating_ips), evs @ evs'))
      in
        if has_network then
          (case neutron of
             Inr raw \<Rightarrow> (Inr (map normalize_neutron raw), [Task ''NeutronFloatingIPList''])
           | Inl e \<Rightarrow>
               if is_OpenStackCloudURINotFound e then
                 via_nova [Task ''NeutronFloatingIPList'', LogDebug (trying_with_nova e)]
               else (Inl e, [Task ''NeutronFloatingIPList'']))
        else via_nova [])"

text \<open>
  \<^verbatim>\<open>
  def create_floating_ip(self, network=None, server=None):
      if self.has_service('network'):
          try:
              f_ips = _utils.normalize_neutron_floating_ips(
                  [self._neutron_create_floating_ip(
                      network_name_or_id=network, server=server)]
              )
              return f_ips[0]
          except OpenStackCloudURINotFound as e:
              self.log.debug(...)
              # Fall-through, trying with Nova

      # Else, we are using Nova network
      f_ips = _utils.normalize_nova_floating_ips(
          [self._nova_create_floating_ip(pool=network)])
      return f_ips[0]
  \<close>
\<close>

definition create_floating_ip ::
  "('a \<Rightarrow> floating_ip) \<Rightarrow> ('b \<Rightarrow> floating_ip) \<Rightarrow> bool \<Rightarrow> error + 'a \<Rightarrow> error + 'b \<Rightarrow>
   (error + floating_ip) \<times> event list"
where
  "create_floating_ip normalize_neutron normalize_nova has_network neutron nova =
     (let via_nova = (\<lambda>evs.
            case nova of
              Inl e \<Rightarrow> (Inl e, evs @ [Call ''_nova_create_floating_ip''])
            | Inr raw \<Rightarrow> (Inr (normalize_nova raw), evs @ [Call ''_nova_create_floating_ip'']))
      in
        if has_network then
          (case neutron of
             Inr raw \<Rightarrow> (Inr (normalize_neutron raw), [Call ''_neutron_create_floating_ip''])
           | Inl e \<Rightarrow>
               if is_OpenStackCloudURINotFound e then
                 via_nova [Call ''_neutron_create_floating_ip'', LogDebug (trying_with_nova e)]
               else (Inl e, [Call ''_neutron_create_floating_ip'']))
        else via_nova [])"

text \<open>
  \<^verbatim>\<open>
  def delete_floating_ip(self, floating_ip_id):
      if self.has_service('network'):
          try:
              return self._neutron_delete_floating_ip(floating_ip_id)
          except OpenStackCloudURINotFound as e:
              self.log.debug(...)
              # Fall-through, trying with Nova

      # Else, we are using Nova network
      return self._nova_delete_floating_ip(floating_ip_id)

  def _neutron_delete_floating_ip(self, floating_ip_id):
      try:
          with _utils.neutron_exceptions("unable to delete floating IP"):
              self.manager.submitTask(
                  _tasks.NeutronFloatingIPDelete(floatingip=floating_ip_id))
      except OpenStackCloudResourceNotFound:
          return False

      return True

  def _nova_delete_floating_ip(self, floating_ip_id):
      try:
          self.manager.submitTask(
              _tasks.NovaFloatingIPDelete(floating_ip=floating_ip_id))
      except nova_exceptions.NotFound:
          return False
      except OpenStackCloudException:
          raise
      except Exception as e:
          raise OpenStackCloudException(
              "Unable to delete floating IP id {fip_id}: {msg}".format(
                  fip_id=floating_ip_id, msg=str(e)))

      return True
  \<close>
  Here \<open>neutron\<close> is what leaves the \<^verbatim>\<open>with _utils.neutron_exceptions\<close> block and \<open>nova\<close> what
  the \<^verbatim>\<open>NovaFloatingIPDelete\<close> task gives.
\<close>

definition u_neutron_delete_floating_ip :: "error + unit \<Rightarrow> (error + bool) \<times> event list" where
  "u_neutron_delete_floating_ip neutron =
     (case neutron of
        Inr u \<Rightarrow> (Inr True, [Task ''NeutronFloatingIPDelete''])
      | Inl e \<Rightarrow>
          if is_OpenStackCloudResourceNotFound e then (Inr False, [Task ''NeutronFloatingIPDelete''])
          else (Inl e, [Task ''NeutronFloatingIPDelete'']))"

definition u_nova_delete_floating_ip :: "string \<Rightarrow> error + unit \<Rightarrow> (error + bool) \<times> event list" where
  "u_nova_delete_floating_ip floating_ip_id nova =
     (case nova of
        Inr u \<Rightarrow> (Inr True, [Task ''NovaFloatingIPDelete''])
      | Inl e \<Rightarrow>
          if is_NovaNotFound e then (Inr False, [Task ''NovaFloatingIPDelete''])
          else if is_OpenStackCloudException e then (Inl e, [Task ''NovaFloatingIPDelete''])
          else
            (Inl (OpenStackCloudException
               (''Unable to delete floating IP id '' @ floating_ip_id @ '': '' @ exc_str e)),
             [Task ''NovaFloatingIPDelete'']))"

definition delete_floating_ip ::
  "bool \<Rightarrow> error + unit \<Rightarrow> error + unit \<Rightarrow> string \<Rightarrow> (error + bool) \<times> event list"
where
  "delete_floating_ip has_network neutron nova floating_ip_id =
     (let via_nova = (\<lambda>evs.
            case u_nova_delete_floating_ip floating_ip_id nova of
              (r, evs') \<Rightarrow> (r, evs @ evs'))
      in
        if has_network then
          (case u_neutron_delete_floating_ip neutron of
             (Inr b, evs) \<Rightarrow> (Inr b, evs)
           | (Inl e, evs) \<Rightarrow>
               if is_OpenStackCloudURINotFound e
               then via_nova (evs @ [LogDebug (trying_with_nova e)])
               else (Inl e, evs))
        else via_nova [])"

text \<open>
  \<^verbatim>\<open>
  def _attach_ip_to_server(
          self, server, floating_ip,
          fixed_address=None, wait=False,
          timeout=60, skip_attach=False):
      # Short circuit if we're asking to attach an IP that's already
      # attached
      ext_ip = meta.get_server_ip(server, ext_tag='floating')
      if ext_ip == floating_ip['floating_ip_address']:
          return server

      if self.has_service('network'):
          if not skip_attach:
              try:
                  self._neutron_attach_ip_to_server(
                      server=server, floating_ip=floating_ip,
                      fixed_address=fixed_address)
              except OpenStackCloudURINotFound as e:
                  self.log.debug(
                      "Something went wrong talking to neutron API: "
                      "'{msg}'. Trying with Nova.".format(msg=str(e)))
                  # Fall-through, trying with Nova
      else:
          # Nova network
          self._nova_attach_ip_to_server(
              server_id=server['id'], floating_ip_id=floating_ip['id'],
              fixed_address=fixed_address)

      if wait:
          # Wait for the address to be assigned to the server
          server_id = server['id']
          for _ in _utils._iterate_timeout(
                  timeout,
                  "Timeout waiting for the floating IP to be attached."):
              server = self.get_server_by_id(server_id)
              ext_ip = meta.get_server_ip(server, ext_tag='floating')
              if ext_ip == floating_ip['floating_ip_address']:
                  return server
      return server
  \<close>
  \<open>get_server_ip\<close> is \<^verbatim>\<open>meta.get_server_ip(_, ext_tag='floating')\<close>, a parameter: the floating
  address of a server descriptor, or \<^verbatim>\<open>None\<close>. \<open>neutron\<close> and \<open>nova\<close> are what the calls of
  \<^verbatim>\<open>_neutron_attach_ip_to_server\<close> and \<^verbatim>\<open>_nova_attach_ip_to_server\<close> give; \<open>get_server_by_id k\<close>
  is what \<^verbatim>\<open>self.get_server_by_id\<close> gives in iteration \<open>k\<close> of the wait loop.
\<close>

definition attach_wait_body ::
  "(server \<Rightarrow> string option) \<Rightarrow> (nat \<Rightarrow> error + server) \<Rightarrow> floating_ip \<Rightarrow>
   nat \<Rightarrow> server \<Rightarrow> (server, server) step \<times> event list"
where
  "attach_wait_body get_server_ip get_server_by_id floating_ip k s =
     (case get_server_by_id k of
        Inl e \<Rightarrow> (Raise e, [Call ''get_server_by_id''])
      | Inr s' \<Rightarrow>
          if get_server_ip s' = Some (floating_ip_address floating_ip)
          then (Return s', [Call ''get_server_by_id''])
          else (Continue s', [Call ''get_server_by_id'']))"

definition u_attach_ip_to_server ::
  "(server \<Rightarrow> string option) \<Rightarrow> bool \<Rightarrow> error + unit \<Rightarrow> error + unit \<Rightarrow>
   (nat \<Rightarrow> real) \<Rightarrow> (nat \<Rightarrow> error + server) \<Rightarrow>
   server \<Rightarrow> floating_ip \<Rightarrow> bool \<Rightarrow> real option \<Rightarrow> bool \<Rightarrow>
   ((error + server) \<times> event list) option"
where
  "u_attach_ip_to_server get_server_ip has_network neutron nova clock get_server_by_id
       server floating_ip wait timeout skip_attach =
     (if get_server_ip server = Some (floating_ip_address floating_ip) then Some (Inr server, [])
      else
        (case
           (if has_network then
              (if \<not> skip_attach then
                 (case neutron of
                    Inr u \<Rightarrow> (Inr (), [Call ''_neutron_attach_ip_to_server''])
                  | Inl e \<Rightarrow>
                      if is_OpenStackCloudURINotFound e then
                        (Inr (), [Call ''_neutron_attach_ip_to_server'',
                                  LogDebug (trying_with_nova e)])
                      else (Inl e, [Call ''_neutron_attach_ip_to_server'']))
               else (Inr (), []))
            else
              (case nova of
                 Inr u \<Rightarrow> (Inr (), [Call ''_nova_attach_ip_to_server''])
               | Inl e \<Rightarrow> (Inl e, [Call ''_nova_attach_ip_to_server''])))
         of
           (Inl e, evs) \<Rightarrow> Some (Inl e, evs)
         | (Inr u, evs) \<Rightarrow>
             if wait then
               (case iterate_timeout timeout ''Timeout waiting for the floating IP to be attached.''
                       clock (attach_wait_body get_server_ip get_server_by_id floating_ip)
                       0 server evs of
                  None \<Rightarrow> None
                | Some (Inl e, tr) \<Rightarrow> Some (Inl e, tr)
                | Some (Inr (Inl s), tr) \<Rightarrow> Some (Inr s, tr)
                | Some (Inr (Inr s), tr) \<Rightarrow> Some (Inr s, tr))
             else Some (Inr server, evs)))"

section \<open>Volumes: \<^verbatim>\<open>create_volume\<close> and \<^verbatim>\<open>delete_volume\<close>\<close>

text \<open>
  Volume, image and stack descriptors, with what the verbs read of them: \<^verbatim>\<open>volume['id']\<close>,
  \<^verbatim>\<open>volume['status']\<close>; \<^verbatim>\<open>image.id\<close>, \<^verbatim>\<open>image.status\<close>; \<^verbatim>\<open>stack['id']\<close>,
  \<^verbatim>\<open>stack['stack_status']\<close>.
\<close>

record volume =
  volume_id :: string
  volume_status :: string

record image =
  image_id :: string
  image_status :: string

record stack =
  stack_id :: string
  stack_status :: string

text \<open>
  \<^verbatim>\<open>
  def create_volume(self, size, wait=True, timeout=None, image=None, **kwargs):
      if image:
          image_obj = self.get_image(image)
          if not image_obj:
              raise OpenStackCloudException(
                  "Image {image} was requested as the basis for a new"
                  " volume, but was not found on the cloud".format(image=image))
          kwargs['imageRef'] = image_obj['id']
      kwargs = self._get_volume_kwargs(kwargs)
      with _utils.shade_exceptions("Error in creating volume"):
          volume = self.manager.submitTask(_tasks.VolumeCreate(
              size=size, **kwargs))
      self.list_volumes.invalidate(self)

      if volume['status'] == 'error':
          raise OpenStackCloudException("Error in creating volume")

      if wait:
          vol_id = volume['id']
          for count in _utils._iterate_timeout(
                  timeout,
                  "Timeout waiting for the volume to be available."):
              volume = self.get_volume(vol_id)

              if not volume:
                  continue

              if volume['status'] == 'available':
                  return volume

              if volume['status'] == 'error':
                  raise OpenStackCloudException(
                      "Error in creating volume, please check logs")

      return _utils.normalize_volumes([volume])[0]
  \<close>
  \<open>get_image\<close> is what \<^verbatim>\<open>self.get_image(image)\<close> gives, \<open>create\<close> what the \<^verbatim>\<open>VolumeCreate\<close> task
  gives, and \<open>get_volume k\<close> what \<^verbatim>\<open>self.get_volume(vol_id)\<close> gives in iteration \<open>k\<close> of the
  wait loop (\<^verbatim>\<open>None\<close> when no volume has that id). The keyword arguments only shape the
  request of the task. \<open>normalize_volume\<close> is the normalizer of \<^verbatim>\<open>shade/_utils.py\<close> on one
  volume. The loop variable is \<^verbatim>\<open>volume\<close>.
\<close>

definition create_volume_wait_body ::
  "(nat \<Rightarrow> error + volume option) \<Rightarrow> nat \<Rightarrow> volume option \<Rightarrow>
   (volume option, volume) step \<times> event list"
where
  "create_volume_wait_body get_volume k vol =
     (case get_volume k of
        Inl e \<Rightarrow> (Raise e, [Call ''get_volume''])
      | Inr None \<Rightarrow> (Continue None, [Call ''get_volume''])
      | Inr (Some v) \<Rightarrow>
          if volume_status v = ''available'' then (Return v, [Call ''get_volume''])
          else if volume_status v = ''error'' then
            (Raise (OpenStackCloudException ''Error in creating volume, please check logs''),
             [Call ''get_volume''])
          else (Continue (Some v), [Call ''get_volume'']))"

text \<open>The part before the create task: the image that the volume is to be made from.\<close>

definition create_volume_image ::
  "error + image option \<Rightarrow> string option \<Rightarrow> (error + unit) \<times> event list"
where
  "create_volume_image get_image img =
     (case img of
        None \<Rightarrow> (Inr (), [])
      | Some i \<Rightarrow>
          if i = [] then (Inr (), [])
          else
            (case get_image of
               Inl e \<Rightarrow> (Inl e, [Call ''get_image''])
             | Inr None \<Rightarrow>
                 (Inl (OpenStackCloudException
                    (''Image '' @ i @ '' was requested as the basis for a new''
                       @ '' volume, but was not found on the cloud'')),
                  [Call ''get_image''])
             | Inr (Some image_obj) \<Rightarrow> (Inr (), [Call ''get_image''])))"

definition create_volume ::
  "(volume \<Rightarrow> volume) \<Rightarrow> error + image option \<Rightarrow> error + volume \<Rightarrow>
   (nat \<Rightarrow> real) \<Rightarrow> (nat \<Rightarrow> error + volume option) \<Rightarrow>
   bool \<Rightarrow> real option \<Rightarrow> string option \<Rightarrow>
   ((error + volume) \<times> event list) option"
where
  "create_volume normalize_volume get_image create clock get_volume wait timeout img =
     (case create_volume_image get_image img of
        (Inl e, evs) \<Rightarrow> Some (Inl e, evs)
      | (Inr u, evs) \<Rightarrow>
          (case shade_exceptions ''Error in creating volume'' create of
             Inl e \<Rightarrow> Some (Inl e, evs @ [Task ''VolumeCreate''])
           | Inr vol \<Rightarrow>
               if volume_status vol = ''error'' then
                 Some (Inl (OpenStackCloudException ''Error in creating volume''),
                       evs @ [Task ''VolumeCreate'', Invalidate ''list_volumes''])
               else if wait then
                 (case iterate_timeout timeout ''Timeout waiting for the volume to be available.''
                         clock (create_volume_wait_body get_volume) 0 (Some vol)
                         (evs @ [Task ''VolumeCreate'', Invalidate ''list_volumes'']) of
                    None \<Rightarrow> None
                  | Some (Inl e, tr) \<Rightarrow> Some (Inl e, tr)
                  | Some (Inr (Inr v), tr) \<Rightarrow> Some (Inr v, tr)
                  | Some (Inr (Inl None), tr) \<Rightarrow>
                      Some (Inl (TypeError ''NoneType object is not subscriptable''), tr)
                  | Some (Inr (Inl (Some v)), tr) \<Rightarrow> Some (Inr (normalize_volume v), tr))
               else
                 Some (Inr (normalize_volume vol),
                       evs @ [Task ''VolumeCreate'', Invalidate ''list_volumes''])))"

text \<open>
  \<^verbatim>\<open>
  def delete_volume(self, name_or_id=None, wait=True, timeout=None):
      self.list_volumes.invalidate(self)
      volume = self.get_volume(name_or_id)

      if not volume:
          self.log.debug(
              "Volume {name_or_id} does not exist".format(name_or_id=name_or_id),
              exc_info=True)
          return False

      with _utils.shade_exceptions("Error in deleting volume"):
          self.manager.submitTask(
              _tasks.VolumeDelete(volume=volume['id']))

      self.list_volumes.invalidate(self)
      if wait:
          for count in _utils._iterate_timeout(
                  timeout,
                  "Timeout waiting for the volume to be deleted."):

              if not self.get_volume(volume['id']):
                  break

      return True
  \<close>
  \<open>get_volume\<close> is what \<^verbatim>\<open>self.get_volume(name_or_id)\<close> gives, \<open>volume_delete\<close> what the
  \<^verbatim>\<open>VolumeDelete\<close> task gives, \<open>get_volume_by_id k\<close> what \<^verbatim>\<open>self.get_volume(volume['id'])\<close> gives
  in iteration \<open>k\<close> of the wait loop.
\<close>

definition delete_volume_wait_body ::
  "(nat \<Rightarrow> error + volume option) \<Rightarrow> nat \<Rightarrow> unit \<Rightarrow> (unit, unit) step \<times> event list"
where
  "delete_volume_wait_body get_volume_by_id k u =
     (case get_volume_by_id k of
        Inl e \<Rightarrow> (Raise e, [Call ''get_volume''])
      | Inr None \<Rightarrow> (Break (), [Call ''get_volume''])
      | Inr (Some v) \<Rightarrow> (Continue (), [Call ''get_volume'']))"

definition delete_volume ::
  "error + volume option \<Rightarrow> error + unit \<Rightarrow> (nat \<Rightarrow> real) \<Rightarrow> (nat \<Rightarrow> error + volume option) \<Rightarrow>
   string \<Rightarrow> bool \<Rightarrow> real option \<Rightarrow> ((error + bool) \<times> event list) option"
where
  "delete_volume get_volume volume_delete clock get_volume_by_id name_or_id wait timeout =
     (case get_volume of
        Inl e \<Rightarrow> Some (Inl e, [Invalidate ''list_volumes'', Call ''get_volume''])
      | Inr None \<Rightarrow>
          Some (Inr False,
                [Invalidate ''list_volumes'', Call ''get_volume'',
                 LogDebug (''Volume '' @ name_or_id @ '' does not exist'')])
      | Inr (Some vol) \<Rightarrow>
          (case shade_exceptions ''Error in deleting volume'' volume_delete of
             Inl e \<Rightarrow>
               Some (Inl e, [Invalidate ''list_volumes'', Call ''get_volume'', Task ''VolumeDelete''])
           | Inr u \<Rightarrow>
               if wait then
                 (case iterate_timeout timeout ''Timeout waiting for the volume to be deleted.''
                         clock (delete_volume_wait_body get_volume_by_id) 0 ()
                         [Invalidate ''list_volumes'', Call ''get_volume'', Task ''VolumeDelete'',
                          Invalidate ''list_volumes''] of
                    None \<Rightarrow> None
                  | Some (Inl e, tr) \<Rightarrow> Some (Inl e, tr)
                  | Some (Inr r, tr) \<Rightarrow> Some (Inr True, tr))
               else
                 Some (Inr True,
                       [Invalidate ''list_volumes'', Call ''get_volume'', Task ''VolumeDelete'',
                        Invalidate ''list_volumes''])))"

text \<open>
  The answers of \<^verbatim>\<open>get_volume\<close> on which the wait loop of \<^verbatim>\<open>create_volume\<close> goes on: no volume
  with that id, or a volume whose status is neither \<^verbatim>\<open>'available'\<close> nor \<^verbatim>\<open>'error'\<close>.
\<close>

definition volume_pending :: "error + volume option \<Rightarrow> bool" where
  "volume_pending r =
     (case r of
        Inl e \<Rightarrow> False
      | Inr None \<Rightarrow> True
      | Inr (Some v) \<Rightarrow> volume_status v \<noteq> ''available'' \<and> volume_status v \<noteq> ''error'')"

section \<open>Deleting servers, stacks, security groups and images\<close>

text \<open>
  \<^verbatim>\<open>
  def _delete_server(self, server, wait=False, timeout=180, delete_ips=False):
      if not server:
          return False

      if delete_ips:
          floating_ip = meta.get_server_ip(server, ext_tag='floating')
          if floating_ip:
              ips = self.search_floating_ips(filters={
                  'floating_ip_address': floating_ip})
              if len(ips) != 1:
                  raise OpenStackException(
                      "Tried to delete floating ip {floating_ip}"
                      " associated with server {id} but there was"
                      " an error finding it. Something is exceptionally"
                      " broken.".format(floating_ip=floating_ip, id=server['id']))
              self.delete_floating_ip(ips[0]['id'])

      try:
          self.manager.submitTask(
              _tasks.ServerDelete(server=server['id']))
      except nova_exceptions.NotFound:
          return False
      except OpenStackCloudException:
          raise
      except Exception as e:
          raise OpenStackCloudException(
              "Error in deleting server: {0}".format(e))

      if not wait:
          return True

      for count in _utils._iterate_timeout(
              timeout,
              "Timed out waiting for server to get deleted.",
              wait=self._SERVER_AGE):
          try:
              server = self.get_server_by_id(server['id'])
              if not server:
                  break
          except nova_exceptions.NotFound:
              break
          except OpenStackCloudException:
              raise
          except Exception as e:
              raise OpenStackCloudException(
                  "Error in deleting server: {0}".format(e))

      if self.has_service('volume'):
          # If the server has volume attachments, or if it has booted
          # from volume, deleting it will change volume state
          if (not server['image'] or not server['image']['id']
                  or self.get_volume(server)):
              self.list_volumes.invalidate(self)

      # Reset the list servers cache time so that the next list server
      # call gets a new list
      self._servers_time = self._servers_time - self._SERVER_AGE
      return True
  \<close>
  \<open>search_floating_ips\<close>, \<open>delete_fip\<close> and \<open>get_volume\<close> are what the calls of
  \<^verbatim>\<open>self.search_floating_ips\<close>, \<^verbatim>\<open>self.delete_floating_ip\<close> and \<^verbatim>\<open>self.get_volume(server)\<close> give;
  \<open>server_delete\<close> is what the \<^verbatim>\<open>ServerDelete\<close> task gives; \<open>get_server_by_id k\<close> is what
  \<^verbatim>\<open>self.get_server_by_id\<close> gives in iteration \<open>k\<close> of the wait loop (it submits a \<^verbatim>\<open>ServerGet\<close>
  task and does not touch the snapshot); \<open>has_volume\<close> is \<^verbatim>\<open>self.has_service('volume')\<close>. The
  loop variable is \<^verbatim>\<open>server\<close>, which a falsy answer of \<^verbatim>\<open>get_server_by_id\<close> sets to \<^verbatim>\<open>None\<close>.
\<close>

definition deleting_server_error :: "error \<Rightarrow> error" where
  "deleting_server_error e =
     (if is_OpenStackCloudException e then e
      else OpenStackCloudException (''Error in deleting server: '' @ exc_str e))"

definition delete_server_wait_body ::
  "(nat \<Rightarrow> error + server option) \<Rightarrow> nat \<Rightarrow> server option \<Rightarrow>
   (server option, unit) step \<times> event list"
where
  "delete_server_wait_body get_server_by_id k srv =
     (case get_server_by_id k of
        Inr None \<Rightarrow> (Break None, [Call ''get_server_by_id''])
      | Inr (Some s') \<Rightarrow> (Continue (Some s'), [Call ''get_server_by_id''])
      | Inl e \<Rightarrow>
          if is_NovaNotFound e then (Break srv, [Call ''get_server_by_id''])
          else (Raise (deleting_server_error e), [Call ''get_server_by_id'']))"

text \<open>The part before the \<^verbatim>\<open>ServerDelete\<close> task: the floating IPs of the server.\<close>

definition delete_server_ips ::
  "(server \<Rightarrow> string option) \<Rightarrow> error + floating_ip list \<Rightarrow> error + bool \<Rightarrow>
   server \<Rightarrow> bool \<Rightarrow> (error + unit) \<times> event list"
where
  "delete_server_ips get_server_ip search_floating_ips delete_fip srv delete_ips =
     (if delete_ips then
        (case get_server_ip srv of
           None \<Rightarrow> (Inr (), [])
         | Some fip \<Rightarrow>
             if fip = [] then (Inr (), [])
             else
               (case search_floating_ips of
                  Inl e \<Rightarrow> (Inl e, [Call ''search_floating_ips''])
                | Inr ips \<Rightarrow>
                    if length ips \<noteq> 1 then
                      (Inl (OpenStackException
                         (''Tried to delete floating ip '' @ fip @ '' associated with server ''
                            @ server_id srv @ '' but there was an error finding it.''
                            @ '' Something is exceptionally broken.'')),
                       [Call ''search_floating_ips''])
                    else
                      (case delete_fip of
                         Inl e \<Rightarrow> (Inl e, [Call ''search_floating_ips'', Call ''delete_floating_ip''])
                       | Inr b \<Rightarrow> (Inr (), [Call ''search_floating_ips'', Call ''delete_floating_ip'']))))
      else (Inr (), []))"

text \<open>The part after the wait loop, on the value of \<^verbatim>\<open>server\<close> that the loop left.\<close>

definition delete_server_finish ::
  "bool \<Rightarrow> error + volume option \<Rightarrow> server option \<Rightarrow> inventory \<Rightarrow> event list \<Rightarrow>
   (error + bool) \<times> inventory \<times> event list"
where
  "delete_server_finish has_volume get_volume srv st tr =
     (case
        (if has_volume then
           (case srv of
              None \<Rightarrow> (Inl (TypeError ''NoneType object is not subscriptable''), [])
            | Some s \<Rightarrow>
                (case server_image_id s of
                   None \<Rightarrow> (Inr (), [Invalidate ''list_volumes''])
                 | Some i \<Rightarrow>
                     (case get_volume of
                        Inl e \<Rightarrow> (Inl e, [Call ''get_volume''])
                      | Inr None \<Rightarrow> (Inr (), [Call ''get_volume''])
                      | Inr (Some v) \<Rightarrow> (Inr (), [Call ''get_volume'', Invalidate ''list_volumes'']))))
         else (Inr (), []))
      of
        (Inl e, evs) \<Rightarrow> (Inl e, st, tr @ evs)
      | (Inr u, evs) \<Rightarrow>
          (Inr True, st\<lparr>servers_time := servers_time st - SERVER_AGE st\<rparr>,
           tr @ evs @ [StoreServersTime]))"

definition u_delete_server ::
  "(server \<Rightarrow> string option) \<Rightarrow> error + floating_ip list \<Rightarrow> error + bool \<Rightarrow> error + unit \<Rightarrow>
   (nat \<Rightarrow> real) \<Rightarrow> (nat \<Rightarrow> error + server option) \<Rightarrow> bool \<Rightarrow> error + volume option \<Rightarrow>
   inventory \<Rightarrow> server option \<Rightarrow> bool \<Rightarrow> real option \<Rightarrow> bool \<Rightarrow>
   ((error + bool) \<times> inventory \<times> event list) option"
where
  "u_delete_server get_server_ip search_floating_ips delete_fip server_delete
       clock get_server_by_id has_volume get_volume st server wait timeout delete_ips =
     (case server of
        None \<Rightarrow> Some (Inr False, st, [])
      | Some srv \<Rightarrow>
          (case delete_server_ips get_server_ip search_floating_ips delete_fip srv delete_ips of
             (Inl e, evs) \<Rightarrow> Some (Inl e, st, evs)
           | (Inr u, evs) \<Rightarrow>
               (case server_delete of
                  Inl e \<Rightarrow>
                    if is_NovaNotFound e then Some (Inr False, st, evs @ [Task ''ServerDelete''])
                    else Some (Inl (deleting_server_error e), st, evs @ [Task ''ServerDelete''])
                | Inr u' \<Rightarrow>
                    if \<not> wait then Some (Inr True, st, evs @ [Task ''ServerDelete''])
                    else
                      (case iterate_timeout timeout ''Timed out waiting for server to get deleted.''
                              clock (delete_server_wait_body get_server_by_id) 0 (Some srv)
                              (evs @ [Task ''ServerDelete'']) of
                         None \<Rightarrow> None
                       | Some (Inl e, tr) \<Rightarrow> Some (Inl e, st, tr)
                       | Some (Inr (Inl srv'), tr) \<Rightarrow>
                           Some (delete_server_finish has_volume get_volume srv' st tr)
                       | Some (Inr (Inr u''), tr) \<Rightarrow>
                           Some (delete_server_finish has_volume get_volume (Some srv) st tr)))))"

text \<open>
  \<^verbatim>\<open>
  def delete_server(self, name_or_id, wait=False, timeout=180, delete_ips=False):
      server = self.get_server(name_or_id)
      if not server:
          return False

      # This portion of the code is intentionally left as a separate
      # private method in order to avoid an unnecessary API call to get
      # a server we already have.
      return self._delete_server(
          server, wait=wait, timeout=timeout, delete_ips=delete_ips)
  \<close>
  \<open>get_server\<close> is what \<^verbatim>\<open>self.get_server(name_or_id)\<close> gives and \<open>st\<close> the inventory as that
  call leaves it (it reads the servers through \<^verbatim>\<open>list_servers\<close>).
\<close>

definition delete_server ::
  "(server \<Rightarrow> string option) \<Rightarrow> error + floating_ip list \<Rightarrow> error + bool \<Rightarrow> error + unit \<Rightarrow>
   (nat \<Rightarrow> real) \<Rightarrow> (nat \<Rightarrow> error + server option) \<Rightarrow> bool \<Rightarrow> error + volume option \<Rightarrow>
   error + server option \<Rightarrow> inventory \<Rightarrow> bool \<Rightarrow> real option \<Rightarrow> bool \<Rightarrow>
   ((error + bool) \<times> inventory \<times> event list) option"
where
  "delete_server get_server_ip search_floating_ips delete_fip server_delete
       clock get_server_by_id has_volume get_volume get_server st wait timeout delete_ips =
     (case get_server of
        Inl e \<Rightarrow> Some (Inl e, st, [Call ''get_server''])
      | Inr None \<Rightarrow> Some (Inr False, st, [Call ''get_server''])
      | Inr (Some srv) \<Rightarrow>
          (case u_delete_server get_server_ip search_floating_ips delete_fip server_delete
                  clock get_server_by_id has_volume get_volume st (Some srv) wait timeout delete_ips of
             None \<Rightarrow> None
           | Some (r, st', evs) \<Rightarrow> Some (r, st', Call ''get_server'' # evs)))"

text \<open>
  \<^verbatim>\<open>
  def delete_stack(self, name_or_id):
      stack = self.get_stack(name_or_id)
      if stack is None:
          self.log.debug("Stack %s not found for deleting" % name_or_id)
          return False

      with _utils.shade_exceptions("Failed to delete stack {id}".format(
              id=stack['id'])):
          self.manager.submitTask(_tasks.StackDelete(id=stack['id']))
      return True
  \<close>
\<close>

definition delete_stack ::
  "error + stack option \<Rightarrow> error + unit \<Rightarrow> string \<Rightarrow> (error + bool) \<times> event list"
where
  "delete_stack get_stack stack_delete name_or_id =
     (case get_stack of
        Inl e \<Rightarrow> (Inl e, [Call ''get_stack''])
      | Inr None \<Rightarrow>
          (Inr False,
           [Call ''get_stack'', LogDebug (''Stack '' @ name_or_id @ '' not found for deleting'')])
      | Inr (Some stk) \<Rightarrow>
          (case shade_exceptions (''Failed to delete stack '' @ stack_id stk) stack_delete of
             Inl e \<Rightarrow> (Inl e, [Call ''get_stack'', Task ''StackDelete''])
           | Inr u \<Rightarrow> (Inr True, [Call ''get_stack'', Task ''StackDelete''])))"

text \<open>
  \<^verbatim>\<open>
  def delete_security_group(self, name_or_id):
      secgroup = self.get_security_group(name_or_id)
      if secgroup is None:
          self.log.debug('Security group %s not found for deleting' % name_or_id)
          return False

      if self.secgroup_source == 'neutron':
          with _utils.neutron_exceptions(
                  "Error deleting security group {0}".format(name_or_id)):
              self.manager.submitTask(
                  _tasks.NeutronSecurityGroupDelete(security_group=secgroup['id']))
          return True

      elif self.secgroup_source == 'nova':
          with _utils.shade_exceptions(
                  "Failed to delete security group '{group}'".format(group=name_or_id)):
              self.manager.submitTask(
                  _tasks.NovaSecurityGroupDelete(group=secgroup['id']))
          return True

      # Security groups not supported
      else:
          raise OpenStackCloudUnavailableFeature(
              "Unavailable feature: security groups")
  \<close>
  The security group is its id. \<open>neutron\<close> is what leaves the
  \<^verbatim>\<open>with _utils.neutron_exceptions\<close> block, \<open>nova\<close> what the nova task gives.
\<close>

definition delete_security_group ::
  "string \<Rightarrow> error + string option \<Rightarrow> error + unit \<Rightarrow> error + unit \<Rightarrow> string \<Rightarrow>
   (error + bool) \<times> event list"
where
  "delete_security_group secgroup_source get_security_group neutron nova name_or_id =
     (case get_security_group of
        Inl e \<Rightarrow> (Inl e, [Call ''get_security_group''])
      | Inr None \<Rightarrow>
          (Inr False,
           [Call ''get_security_group'',
            LogDebug (''Security group '' @ name_or_id @ '' not found for deleting'')])
      | Inr (Some secgroup) \<Rightarrow>
          if secgroup_source = ''neutron'' then
            (case neutron of
               Inl e \<Rightarrow> (Inl e, [Call ''get_security_group'', Task ''NeutronSecurityGroupDelete''])
             | Inr u \<Rightarrow> (Inr True, [Call ''get_security_group'', Task ''NeutronSecurityGroupDelete'']))
          else if secgroup_source = ''nova'' then
            (case shade_exceptions
                    (''Failed to delete security group '' @ [CHR 0x27] @ name_or_id @ [CHR 0x27])
                    nova of
               Inl e \<Rightarrow> (Inl e, [Call ''get_security_group'', Task ''NovaSecurityGroupDelete''])
             | Inr u \<Rightarrow> (Inr True, [Call ''get_security_group'', Task ''NovaSecurityGroupDelete'']))
          else
            (Inl (OpenStackCloudUnavailableFeature ''Unavailable feature: security groups''),
             [Call ''get_security_group'']))"

text \<open>
  \<^verbatim>\<open>
  def delete_image(self, name_or_id, wait=False, timeout=3600):
      image = self.get_image(name_or_id)
      with _utils.shade_exceptions("Error in deleting image"):
          # Note that in v1, the param name is image, but in v2,
          # it's image_id
          glance_api_version = self.cloud_config.get_api_version('image')
          if glance_api_version == '2':
              self.manager.submitTask(
                  _tasks.ImageDelete(image_id=image.id))
          elif glance_api_version == '1':
              self.manager.submitTask(
                  _tasks.ImageDelete(image=image.id))
          self.list_images.invalidate(self)

      if wait:
          for count in _utils._iterate_timeout(
                  timeout,
                  "Timeout waiting for the image to be deleted."):
              self._cache.invalidate()
              if self.get_image(image.id) is None:
                  return
  \<close>
  The verb has no \<^verbatim>\<open>return\<close> with a value: what it returns is Python's \<^verbatim>\<open>None\<close>, the \<open>None\<close> of
  \<open>bool option\<close> here. \<^verbatim>\<open>image.id\<close> on the \<^verbatim>\<open>None\<close> that \<^verbatim>\<open>get_image\<close> gives for an absent image
  raises \<^verbatim>\<open>AttributeError\<close>. \<open>get_image\<close> is what \<^verbatim>\<open>self.get_image(name_or_id)\<close> gives,
  \<open>image_delete\<close> what the \<^verbatim>\<open>ImageDelete\<close> task gives, \<open>get_image_by_id k\<close> what
  \<^verbatim>\<open>self.get_image(image.id)\<close> gives in iteration \<open>k\<close> of the wait loop.
\<close>

definition delete_image_wait_body ::
  "image option \<Rightarrow> (nat \<Rightarrow> error + image option) \<Rightarrow> nat \<Rightarrow> unit \<Rightarrow>
   (unit, unit) step \<times> event list"
where
  "delete_image_wait_body img get_image_by_id k u =
     (case img of
        None \<Rightarrow>
          (Raise (AttributeError ''NoneType object has no attribute id''), [RegionInvalidate])
      | Some i \<Rightarrow>
          (case get_image_by_id k of
             Inl e \<Rightarrow> (Raise e, [RegionInvalidate, Call ''get_image''])
           | Inr None \<Rightarrow> (Return (), [RegionInvalidate, Call ''get_image''])
           | Inr (Some i') \<Rightarrow> (Continue (), [RegionInvalidate, Call ''get_image''])))"

definition delete_image ::
  "error + image option \<Rightarrow> string \<Rightarrow> error + unit \<Rightarrow> (nat \<Rightarrow> real) \<Rightarrow>
   (nat \<Rightarrow> error + image option) \<Rightarrow> bool \<Rightarrow> real option \<Rightarrow>
   ((error + bool option) \<times> event list) option"
where
  "delete_image get_image glance_api_version image_delete clock get_image_by_id wait timeout =
     (case get_image of
        Inl e \<Rightarrow> Some (Inl e, [Call ''get_image''])
      | Inr img \<Rightarrow>
          (case
             (if glance_api_version = ''2'' \<or> glance_api_version = ''1'' then
                (case img of
                   None \<Rightarrow>
                     (shade_exceptions ''Error in deleting image''
                        (Inl (AttributeError ''NoneType object has no attribute id'')), [])
                 | Some i \<Rightarrow>
                     (shade_exceptions ''Error in deleting image'' image_delete,
                      [Task ''ImageDelete'']))
              else (Inr (), []))
           of
             (Inl e, evs) \<Rightarrow> Some (Inl e, Call ''get_image'' # evs)
           | (Inr u, evs) \<Rightarrow>
               if wait then
                 (case iterate_timeout timeout ''Timeout waiting for the image to be deleted.''
                         clock (delete_image_wait_body img get_image_by_id) 0 ()
                         (Call ''get_image'' # evs @ [Invalidate ''list_images'']) of
                    None \<Rightarrow> None
                  | Some (Inl e, tr) \<Rightarrow> Some (Inl e, tr)
                  | Some (Inr r, tr) \<Rightarrow> Some (Inr None, tr))
               else Some (Inr None, Call ''get_image'' # evs @ [Invalidate ''list_images''])))"

section \<open>Image import by task (\<^verbatim>\<open>_upload_image_task\<close>)\<close>

text \<open>
  \<^verbatim>\<open>
  # Rackspace returns this for intermittent import errors
  IMAGE_ERROR_396 = "Image cannot be imported. Error code: '396'"
  \<close>
\<close>

definition IMAGE_ERROR_396 :: string where
  "IMAGE_ERROR_396 =
     ''Image cannot be imported. Error code: '' @ [CHR 0x27] @ ''396'' @ [CHR 0x27]"

text \<open>
  What \<^verbatim>\<open>ImageTaskGet\<close> gives, with what the loop reads of it: \<^verbatim>\<open>status.status\<close>,
  \<^verbatim>\<open>status.message\<close> and \<^verbatim>\<open>status.result['image_id']\<close>.
\<close>

record task_report =
  task_status :: string
  task_message :: string
  task_result_image_id :: string

text \<open>
  The local variables of the wait loop: \<^verbatim>\<open>glance_task\<close> (its id), \<^verbatim>\<open>image_id\<close> and \<^verbatim>\<open>status\<close>
  (unbound before the first poll). \<open>submissions\<close> is not a variable of the code: it counts
  the \<^verbatim>\<open>ImageTaskCreate\<close> tasks submitted so far, so that the model can ask the backend for
  the answer to the next one.
\<close>

record upload_state =
  glance_task :: string
  found_image_id :: "string option"
  status :: "task_report option"
  submissions :: nat

text \<open>
  What \<^verbatim>\<open>_upload_image_task\<close> returns: what the last \<^verbatim>\<open>get_image\<close> gave, or the task, or
  nothing (the end of the function body).
\<close>

datatype upload_result = UploadedImage "image option" | GlanceTask string | NoResult

text \<open>
  \<^verbatim>\<open>
  def _upload_image_task(
          self, name, filename, container, current_image,
          wait, timeout, **image_properties):
      with self._swift_client_lock:
          self._swift_client = None
      self.create_object(
          container, name, filename,
          md5=image_properties.get('md5', None),
          sha256=image_properties.get('sha256', None))
      if not current_image:
          current_image = self.get_image(name)
      task_args = dict(
          type='import', input=dict(
              import_from='{container}/{name}'.format(
                  container=container, name=name),
              image_properties=dict(name=name)))
      glance_task = self.manager.submitTask(
          _tasks.ImageTaskCreate(**task_args))
      self.list_images.invalidate(self)
      if wait:
          image_id = None
          for count in _utils._iterate_timeout(
                  timeout,
                  "Timeout waiting for the image to import."):
              try:
                  if image_id is None:
                      status = self.manager.submitTask(
                          _tasks.ImageTaskGet(task_id=glance_task.id))
              except glanceclient.exc.HTTPServiceUnavailable:
                  # Intermittent failure - catch and try again
                  continue

              if status.status == 'success':
                  image_id = status.result['image_id']
                  try:
                      image = self.get_image(image_id)
                  except glanceclient.exc.HTTPServiceUnavailable:
                      # Intermittent failure - catch and try again
                      continue
                  if image is None:
                      continue
                  self.update_image_properties(
                      image=image,
                      **image_properties)
                  return self.get_image(status.result['image_id'])
              if status.status == 'failure':
                  if status.message == IMAGE_ERROR_396:
                      glance_task = self.manager.submitTask(
                          _tasks.ImageTaskCreate(**task_args))
                      self.list_images.invalidate(self)
                  else:
                      raise OpenStackCloudException(
                          "Image creation failed: {message}".format(
                              message=status.message),
                          extra_data=status)
      else:
          return glance_task
  \<close>
  The backend, as the verb sees it: \<open>task_create n\<close> is what submission \<open>n\<close> of
  \<^verbatim>\<open>ImageTaskCreate\<close> gives (the id of the new task; \<open>n = 0\<close> is the submission before the
  loop); \<open>task_get t k\<close> what \<^verbatim>\<open>ImageTaskGet\<close> gives for task \<open>t\<close> in iteration \<open>k\<close>;
  \<open>get_image k i\<close> what \<^verbatim>\<open>self.get_image(image_id)\<close> gives in iteration \<open>k\<close>;
  \<open>update_image_properties\<close> and \<open>get_image_updated\<close> what the last two calls give;
  \<open>create_object\<close> and \<open>get_image_by_name\<close> what the two calls before the task give.
\<close>

definition upload_image_poll ::
  "(string \<Rightarrow> nat \<Rightarrow> error + task_report) \<Rightarrow> nat \<Rightarrow> upload_state \<Rightarrow>
   (error + upload_state) \<times> event list"
where
  "upload_image_poll task_get k s =
     (case found_image_id s of
        None \<Rightarrow>
          (case task_get (glance_task s) k of
             Inl e \<Rightarrow> (Inl e, [Task ''ImageTaskGet''])
           | Inr st \<Rightarrow> (Inr (s\<lparr>status := Some st\<rparr>), [Task ''ImageTaskGet'']))
      | Some i \<Rightarrow> (Inr s, []))"

definition upload_image_success ::
  "(nat \<Rightarrow> string \<Rightarrow> error + image option) \<Rightarrow> (image \<Rightarrow> error + bool) \<Rightarrow>
   (string \<Rightarrow> error + image option) \<Rightarrow> nat \<Rightarrow> upload_state \<Rightarrow> task_report \<Rightarrow>
   (upload_state, upload_result) step \<times> event list"
where
  "upload_image_success get_image update_image_properties get_image_updated k s st =
     (case get_image k (task_result_image_id st) of
        Inl e \<Rightarrow>
          if is_HTTPServiceUnavailable e then
            (Continue (s\<lparr>found_image_id := Some (task_result_image_id st)\<rparr>), [Call ''get_image''])
          else (Raise e, [Call ''get_image''])
      | Inr None \<Rightarrow>
          (Continue (s\<lparr>found_image_id := Some (task_result_image_id st)\<rparr>), [Call ''get_image''])
      | Inr (Some img) \<Rightarrow>
          (case update_image_properties img of
             Inl e \<Rightarrow> (Raise e, [Call ''get_image'', Call ''update_image_properties''])
           | Inr b \<Rightarrow>
               (case get_image_updated (task_result_image_id st) of
                  Inl e \<Rightarrow>
                    (Raise e, [Call ''get_image'', Call ''update_image_properties'',
                               Call ''get_image''])
                | Inr r \<Rightarrow>
                    (Return (UploadedImage r),
                     [Call ''get_image'', Call ''update_image_properties'', Call ''get_image'']))))"

definition upload_image_failure ::
  "(nat \<Rightarrow> error + string) \<Rightarrow> upload_state \<Rightarrow> task_report \<Rightarrow>
   (upload_state, upload_result) step \<times> event list"
where
  "upload_image_failure task_create s st =
     (if task_message st = IMAGE_ERROR_396 then
        (case task_create (submissions s) of
           Inl e \<Rightarrow> (Raise e, [Task ''ImageTaskCreate''])
         | Inr t \<Rightarrow>
             (Continue (s\<lparr>glance_task := t, submissions := Suc (submissions s)\<rparr>),
              [Task ''ImageTaskCreate'', Invalidate ''list_images'']))
      else
        (Raise (OpenStackCloudException (''Image creation failed: '' @ task_message st)), []))"

definition upload_image_wait_body ::
  "(nat \<Rightarrow> error + string) \<Rightarrow> (string \<Rightarrow> nat \<Rightarrow> error + task_report) \<Rightarrow>
   (nat \<Rightarrow> string \<Rightarrow> error + image option) \<Rightarrow> (image \<Rightarrow> error + bool) \<Rightarrow>
   (string \<Rightarrow> error + image option) \<Rightarrow> nat \<Rightarrow> upload_state \<Rightarrow>
   (upload_state, upload_result) step \<times> event list"
where
  "upload_image_wait_body task_create task_get get_image update_image_properties
       get_image_updated k s =
     (case upload_image_poll task_get k s of
        (Inl e, evs) \<Rightarrow>
          if is_HTTPServiceUnavailable e then (Continue s, evs)
          else (Raise e, evs)
      | (Inr s1, evs) \<Rightarrow>
          (case status s1 of
             None \<Rightarrow> (Raise (OtherError ''UnboundLocalError: status''), evs)
           | Some st \<Rightarrow>
               if task_status st = ''success'' then
                 (case upload_image_success get_image update_image_properties
                         get_image_updated k s1 st of
                    (r, evs') \<Rightarrow> (r, evs @ evs'))
               else if task_status st = ''failure'' then
                 (case upload_image_failure task_create s1 st of
                    (r, evs') \<Rightarrow> (r, evs @ evs'))
               else (Continue s1, evs)))"

definition u_upload_image_task ::
  "error + unit \<Rightarrow> error + image option \<Rightarrow>
   (nat \<Rightarrow> error + string) \<Rightarrow> (string \<Rightarrow> nat \<Rightarrow> error + task_report) \<Rightarrow>
   (nat \<Rightarrow> string \<Rightarrow> error + image option) \<Rightarrow> (image \<Rightarrow> error + bool) \<Rightarrow>
   (string \<Rightarrow> error + image option) \<Rightarrow> (nat \<Rightarrow> real) \<Rightarrow>
   image option \<Rightarrow> bool \<Rightarrow> real option \<Rightarrow>
   ((error + upload_result) \<times> event list) option"
where
  "u_upload_image_task create_object get_image_by_name task_create task_get get_image
       update_image_properties get_image_updated clock current_image wait timeout =
     (case create_object of
        Inl e \<Rightarrow> Some (Inl e, [Call ''create_object''])
      | Inr u \<Rightarrow>
          (case
             (case current_image of
                Some i \<Rightarrow> (Inr (), [Call ''create_object''])
              | None \<Rightarrow>
                  (case get_image_by_name of
                     Inl e \<Rightarrow> (Inl e, [Call ''create_object'', Call ''get_image''])
                   | Inr i \<Rightarrow> (Inr (), [Call ''create_object'', Call ''get_image''])))
           of
             (Inl e, evs) \<Rightarrow> Some (Inl e, evs)
           | (Inr u', evs) \<Rightarrow>
               (case task_create 0 of
                  Inl e \<Rightarrow> Some (Inl e, evs @ [Task ''ImageTaskCreate''])
                | Inr t \<Rightarrow>
                    if wait then
                      (case iterate_timeout timeout ''Timeout waiting for the image to import.''
                              clock
                              (upload_image_wait_body task_create task_get get_image
                                 update_image_properties get_image_updated)
                              0
                              \<lparr>glance_task = t, found_image_id = None, status = None,
                               submissions = 1\<rparr>
                              (evs @ [Task ''ImageTaskCreate'', Invalidate ''list_images'']) of
                         None \<Rightarrow> None
                       | Some (Inl e, tr) \<Rightarrow> Some (Inl e, tr)
                       | Some (Inr (Inl s), tr) \<Rightarrow> Some (Inr NoResult, tr)
                       | Some (Inr (Inr r), tr) \<Rightarrow> Some (Inr r, tr))
                    else
                      Some (Inr (GlanceTask t),
                            evs @ [Task ''ImageTaskCreate'', Invalidate ''list_images'']))))"

section \<open>The cache layer and the cached list verbs\<close>

text \<open>
  \<^verbatim>\<open>
  def _no_pending_volumes(volumes):
      '''If there are any volumes not in a steady state, don't cache'''
      for volume in volumes:
          if volume['status'] not in ('available', 'error', 'in-use'):
              return False
      return True

  def _no_pending_images(images):
      '''If there are any images not in a steady state, don't cache'''
      for image in images:
          if image.status not in ('active', 'deleted', 'killed'):
              return False
      return True

  def _no_pending_stacks(stacks):
      '''If there are any stacks not in a steady state, don't cache'''
      for stack in stacks:
          status = stack['stack_status']
          if '_COMPLETE' not in status and '_FAILED' not in status:
              return False
      return True
  \<close>
  \<^verbatim>\<open>x in s\<close> on two strings is the substring test, \<open>sublist\<close>.
\<close>

fun u_no_pending_volumes :: "volume list \<Rightarrow> bool" where
  "u_no_pending_volumes [] = True"
| "u_no_pending_volumes (vol # volumes) =
     (if volume_status vol \<notin> set [''available'', ''error'', ''in-use''] then False
      else u_no_pending_volumes volumes)"

fun u_no_pending_images :: "image list \<Rightarrow> bool" where
  "u_no_pending_images [] = True"
| "u_no_pending_images (img # images) =
     (if image_status img \<notin> set [''active'', ''deleted'', ''killed''] then False
      else u_no_pending_images images)"

fun u_no_pending_stacks :: "stack list \<Rightarrow> bool" where
  "u_no_pending_stacks [] = True"
| "u_no_pending_stacks (stk # stacks) =
     (if \<not> sublist ''_COMPLETE'' (stack_status stk) \<and> \<not> sublist ''_FAILED'' (stack_status stk)
      then False
      else u_no_pending_stacks stacks)"

text \<open>
  Modelled from the spec: the cache that \<^verbatim>\<open>_utils.cache_on_arguments(should_cache_fn=...)\<close>
  puts around a list verb (the decorator and the dogpile region behind it are not among
  the sources). Sections 3 and 4.2 of the specification: a cache entry maps a key to a cached
  value and an expiration timestamp; \<open>cached_read\<close> returns a live entry without calling the
  compute function; otherwise it calls the compute function and then the staleness
  predicate, and stores the value only if the predicate accepts it; an error of the compute
  function propagates and stores nothing; \<open>invalidate\<close> removes an entry at once; with
  caching disabled every read computes, nothing is stored and \<open>invalidate\<close> does nothing.

  \<open>caching\<close> and \<open>expiration_time\<close> are the cache configuration (enabled, time to live);
  \<open>compute\<close> is what the verb's body gives if it runs, with its events.
\<close>

record 'v cache_entry =
  cached_value :: 'v
  expiration :: real

record 'v cache =
  caching :: bool
  expiration_time :: real
  entries :: "string \<Rightarrow> 'v cache_entry option"

text \<open>
  Modelled from the spec: the live entry for a key, if there is one ("absence of an entry
  is indistinguishable from expiration").
\<close>

definition live_entry :: "'v cache \<Rightarrow> real \<Rightarrow> string \<Rightarrow> 'v option" where
  "live_entry c now key =
     (if caching c then
        (case entries c key of
           None \<Rightarrow> None
         | Some e \<Rightarrow> if now < expiration e then Some (cached_value e) else None)
      else None)"

text \<open>
  Modelled from the spec: \<open>cached_read(key, staleness_predicate, compute_fn)\<close> of section 4.2.
\<close>

definition cached_read ::
  "real \<Rightarrow> string \<Rightarrow> ('v \<Rightarrow> bool) \<Rightarrow> (error + 'v) \<times> event list \<Rightarrow> 'v cache \<Rightarrow>
   (error + 'v) \<times> 'v cache \<times> event list"
where
  "cached_read now key should_cache compute c =
     (case live_entry c now key of
        Some v \<Rightarrow> (Inr v, c, [])
      | None \<Rightarrow>
          (case compute of
             (Inl e, evs) \<Rightarrow> (Inl e, c, evs)
           | (Inr v, evs) \<Rightarrow>
               (Inr v,
                if caching c \<and> should_cache v then
                  c\<lparr>entries := (entries c)
                      (key \<mapsto> \<lparr>cached_value = v, expiration = now + expiration_time c\<rparr>)\<rparr>
                else c,
                evs)))"

text \<open>Modelled from the spec: \<open>invalidate(key)\<close> of section 4.2.\<close>

definition invalidate :: "string \<Rightarrow> 'v cache \<Rightarrow> 'v cache" where
  "invalidate key c = (if caching c then c\<lparr>entries := (entries c)(key := None)\<rparr> else c)"

text \<open>
  Modelled from the spec: the decorator \<^verbatim>\<open>_utils.cache_on_arguments(should_cache_fn=...)\<close> on a
  verb called with keyword arguments \<open>kwargs\<close> and no positional ones. The key is the one
  that \<open>generate_key\<close> (the \<^verbatim>\<open>function_key_generator\<close> that \<^verbatim>\<open>__init__\<close> gives the cache region)
  builds from the connection, the name of the verb and the keywords.
\<close>

definition cache_on_arguments ::
  "cloud \<Rightarrow> string \<Rightarrow> (string \<times> pyval) list \<Rightarrow> ('v \<Rightarrow> bool) \<Rightarrow> real \<Rightarrow>
   (error + 'v) \<times> event list \<Rightarrow> 'v cache \<Rightarrow> (error + 'v) \<times> 'v cache \<times> event list"
where
  "cache_on_arguments self fname kwargs should_cache now compute c =
     (case generate_key self None fname [] kwargs of
        Inl e \<Rightarrow> (Inl e, c, [])
      | Inr key \<Rightarrow> cached_read now key should_cache compute c)"

text \<open>
  \<^verbatim>\<open>
  @_utils.cache_on_arguments(should_cache_fn=_no_pending_volumes)
  def list_volumes(self, cache=True):
      if not cache:
          warnings.warn('cache argument to list_volumes is deprecated. Use '
                        'invalidate instead.')
      with _utils.shade_exceptions("Error fetching volume list"):
          return _utils.normalize_volumes(
              self.manager.submitTask(_tasks.VolumeList()))
  \<close>
  \<open>cache_arg\<close> is the keyword \<^verbatim>\<open>cache\<close>, \<open>None\<close> when the caller leaves it out; \<open>resp\<close> is what
  the \<^verbatim>\<open>VolumeList\<close> task gives, normalized.
\<close>

definition list_volumes_body ::
  "bool option \<Rightarrow> error + volume list \<Rightarrow> (error + volume list) \<times> event list"
where
  "list_volumes_body cache_arg resp =
     (shade_exceptions ''Error fetching volume list'' resp,
      (if cache_arg = Some False
       then [Warn ''cache argument to list_volumes is deprecated. Use invalidate instead.'']
       else []) @ [Task ''VolumeList''])"

definition list_volumes ::
  "cloud \<Rightarrow> real \<Rightarrow> error + volume list \<Rightarrow> bool option \<Rightarrow> volume list cache \<Rightarrow>
   (error + volume list) \<times> volume list cache \<times> event list"
where
  "list_volumes self now resp cache_arg c =
     cache_on_arguments self ''list_volumes''
       (case cache_arg of None \<Rightarrow> [] | Some b \<Rightarrow> [(''cache'', PBool b)])
       u_no_pending_volumes now (list_volumes_body cache_arg resp) c"

text \<open>
  \<^verbatim>\<open>
  @_utils.cache_on_arguments(should_cache_fn=_no_pending_stacks)
  def list_stacks(self):
      with _utils.shade_exceptions("Error fetching stack list"):
          stacks = self.manager.submitTask(_tasks.StackList())
      return stacks
  \<close>
\<close>

definition list_stacks_body :: "error + stack list \<Rightarrow> (error + stack list) \<times> event list" where
  "list_stacks_body resp =
     (shade_exceptions ''Error fetching stack list'' resp, [Task ''StackList''])"

definition list_stacks ::
  "cloud \<Rightarrow> real \<Rightarrow> error + stack list \<Rightarrow> stack list cache \<Rightarrow>
   (error + stack list) \<times> stack list cache \<times> event list"
where
  "list_stacks self now resp c =
     cache_on_arguments self ''list_stacks'' [] u_no_pending_stacks now (list_stacks_body resp) c"

text \<open>
  \<^verbatim>\<open>
  @_utils.cache_on_arguments(should_cache_fn=_no_pending_images)
  def list_images(self, filter_deleted=True):
      # First, try to actually get images from glance, it's more efficient
      images = []
      try:
          image_gen = self.glance_client.images.list(page_size=1000)
          # Deal with the generator to make a list
          image_list = self.manager.submitTask(
              _tasks.GlanceImageList(image_gen=image_gen))

      except glanceclient.exc.HTTPInternalServerError:
          # We didn't have glance, let's try nova
          # If this doesn't work - we just let the exception propagate
          with _utils.shade_exceptions("Error fetching image list"):
              image_list = self.manager.submitTask(_tasks.NovaImageList())
      except OpenStackCloudException:
          raise
      except Exception as e:
          raise OpenStackCloudException(
              "Error fetching image list: %s" % e)

      for image in image_list:
          # The cloud might return DELETED for invalid images.
          # While that's cute and all, that's an implementation detail.
          if not filter_deleted:
              images.append(image)
          elif image.status != 'DELETED':
              images.append(image)
      return images
  \<close>
  \<open>glance\<close> and \<open>nova\<close> are what the two tasks give; \<open>filter_deleted\<close> is the keyword, \<open>None\<close>
  when the caller leaves it out (the default is \<^verbatim>\<open>True\<close>).
\<close>

definition list_images_body ::
  "bool \<Rightarrow> error + image list \<Rightarrow> error + image list \<Rightarrow> (error + image list) \<times> event list"
where
  "list_images_body filter_deleted glance nova =
     (case
        (case glance of
           Inr image_list \<Rightarrow> (Inr image_list, [Task ''GlanceImageList''])
         | Inl e \<Rightarrow>
             if is_HTTPInternalServerError e then
               (shade_exceptions ''Error fetching image list'' nova,
                [Task ''GlanceImageList'', Task ''NovaImageList''])
             else if is_OpenStackCloudException e then (Inl e, [Task ''GlanceImageList''])
             else
               (Inl (OpenStackCloudException (''Error fetching image list: '' @ exc_str e)),
                [Task ''GlanceImageList'']))
      of
        (Inl e, evs) \<Rightarrow> (Inl e, evs)
      | (Inr image_list, evs) \<Rightarrow>
          (Inr (filter (\<lambda>img. \<not> filter_deleted \<or> image_status img \<noteq> ''DELETED'') image_list),
           evs))"

definition list_images ::
  "cloud \<Rightarrow> real \<Rightarrow> error + image list \<Rightarrow> error + image list \<Rightarrow> bool option \<Rightarrow>
   image list cache \<Rightarrow> (error + image list) \<times> image list cache \<times> event list"
where
  "list_images self now glance nova filter_deleted c =
     cache_on_arguments self ''list_images''
       (case filter_deleted of None \<Rightarrow> [] | Some b \<Rightarrow> [(''filter_deleted'', PBool b)])
       u_no_pending_images now
       (list_images_body (case filter_deleted of None \<Rightarrow> True | Some b \<Rightarrow> b) glance nova) c"

section \<open>Properties of the cache key\<close>

lemma kw_keys_eq:
  assumes d1: "distinct (map fst kw1)" and d2: "distinct (map fst kw2)"
    and dom: "\<And>k. k \<noteq> ''cache'' \<Longrightarrow> (k \<in> fst ` set kw1) = (k \<in> fst ` set kw2)"
  shows "filter (\<lambda>k. k \<noteq> ''cache'') (sort (map fst kw1)) =
         filter (\<lambda>k. k \<noteq> ''cache'') (sort (map fst kw2))"
proof (rule sorted_distinct_set_unique)
  show "sorted (filter (\<lambda>k. k \<noteq> ''cache'') (sort (map fst kw1)))"
    by (rule sorted_wrt_filter) simp
  show "sorted (filter (\<lambda>k. k \<noteq> ''cache'') (sort (map fst kw2)))"
    by (rule sorted_wrt_filter) simp
  show "distinct (filter (\<lambda>k. k \<noteq> ''cache'') (sort (map fst kw1)))"
    using d1 by simp
  show "distinct (filter (\<lambda>k. k \<noteq> ''cache'') (sort (map fst kw2)))"
    using d2 by simp
  show "set (filter (\<lambda>k. k \<noteq> ''cache'') (sort (map fst kw1))) =
        set (filter (\<lambda>k. k \<noteq> ''cache'') (sort (map fst kw2)))"
    using dom by auto
qed

lemma kw_item_cong:
  "map_of kw1 k = map_of kw2 k \<Longrightarrow> kw_item kw1 k = kw_item kw2 k"
  by (simp add: kw_item_def)

lemma kwargs_key_eq:
  assumes d1: "distinct (map fst kw1)" and d2: "distinct (map fst kw2)"
    and eq: "\<forall>k. k \<noteq> ''cache'' \<longrightarrow> map_of kw1 k = map_of kw2 k"
  shows "kwargs_key kw1 = kwargs_key kw2"
proof -
  have dom: "(k \<in> fst ` set kw1) = (k \<in> fst ` set kw2)" if "k \<noteq> ''cache''" for k
  proof -
    have "map_of kw1 k = map_of kw2 k" using eq that by blast
    then have "(map_of kw1 k = None) = (map_of kw2 k = None)" by simp
    then show ?thesis by (simp add: map_of_eq_None_iff)
  qed
  have keys: "filter (\<lambda>k. k \<noteq> ''cache'') (sort (map fst kw1)) =
              filter (\<lambda>k. k \<noteq> ''cache'') (sort (map fst kw2))"
    by (rule kw_keys_eq [OF d1 d2 dom])
  have items: "map (kw_item kw1) (filter (\<lambda>k. k \<noteq> ''cache'') (sort (map fst kw2))) =
               map (kw_item kw2) (filter (\<lambda>k. k \<noteq> ''cache'') (sort (map fst kw2)))"
    using eq by (intro map_cong refl kw_item_cong) simp
  show ?thesis
    unfolding kwargs_key_def keys items ..
qed

text \<open>
  Claim C8, as the code has it. The key that \<open>generate_key\<close> builds is determined by the
  function name, the cloud's \<^verbatim>\<open>name\<close>, the namespace, the positional arguments and the
  keyword arguments other than \<^verbatim>\<open>cache\<close>, read as a dictionary: two calls whose
  connections have the same \<^verbatim>\<open>name\<close> and whose keyword dictionaries agree on every key
  but \<^verbatim>\<open>cache\<close> get the same key (or the same \<^verbatim>\<open>TypeError\<close>), in whatever order the keywords
  were written, whatever \<^verbatim>\<open>cache\<close> is, and whatever the two connections' regions are: the
  region is not part of the key.
\<close>

theorem generate_key_canonical:
  assumes "name c1 = name c2"
    and "distinct (map fst kw1)" and "distinct (map fst kw2)"
    and "\<forall>k. k \<noteq> ''cache'' \<longrightarrow> map_of kw1 k = map_of kw2 k"
  shows "generate_key c1 ns fname args kw1 = generate_key c2 ns fname args kw2"
proof -
  have nk: "name_key c1 ns = name_key c2 ns"
    using assms(1) by (simp add: name_key_def split: option.splits)
  have kk: "kwargs_key kw1 = kwargs_key kw2"
    by (rule kwargs_key_eq [OF assms(2-4)])
  show ?thesis
    unfolding generate_key_def nk kk ..
qed

text \<open>
  The theorem at a concrete pair of calls of \<^verbatim>\<open>list_images\<close>: the keywords in the other
  order, \<^verbatim>\<open>cache\<close> given two different values, and the connections in two regions.
\<close>

theorem generate_key_canonical_witness:
  "generate_key \<lparr>name = ''devstack'', region_name = ''RegionOne''\<rparr> None ''list_images'' []
     [(''filter_deleted'', PBool True), (''cache'', PBool False)] =
   generate_key \<lparr>name = ''devstack'', region_name = ''RegionTwo''\<rparr> None ''list_images'' []
     [(''cache'', PBool True), (''filter_deleted'', PBool True)]"
  using generate_key_canonical
    [of "\<lparr>name = ''devstack'', region_name = ''RegionOne''\<rparr>"
        "\<lparr>name = ''devstack'', region_name = ''RegionTwo''\<rparr>"
        "[(''filter_deleted'', PBool True), (''cache'', PBool False)]"
        "[(''cache'', PBool True), (''filter_deleted'', PBool True)]"
        None "''list_images''" "[]"]
  by simp

text \<open>
  Claim C8 as stated has the region in the connection identity that the key is built
  from. Two connections to the same cloud name in two different regions get one and the
  same key for \<^verbatim>\<open>list_volumes()\<close>.
\<close>

theorem generate_key_region_counterexample:
  "generate_key \<lparr>name = ''devstack'', region_name = ''RegionOne''\<rparr> None ''list_volumes'' [] []
     = Inr ''devstack_list_volumes__''
   \<and> generate_key \<lparr>name = ''devstack'', region_name = ''RegionTwo''\<rparr> None ''list_volumes'' [] []
     = Inr ''devstack_list_volumes__''
   \<and> region_name \<lparr>name = ''devstack'', region_name = ''RegionOne''\<rparr>
     \<noteq> region_name \<lparr>name = ''devstack'', region_name = ''RegionTwo''\<rparr>"
  by (simp add: generate_key_def name_key_def kwargs_key_def)

section \<open>Properties of the server inventory\<close>

lemma list_servers_fresh:
  "now - servers_time st < SERVER_AGE st \<Longrightarrow>
   list_servers self hv now resp now' detailed st = (Returns (servers st), st, [])"
  by (simp add: list_servers_def)

lemma list_servers_acquire_mode:
  "SERVER_AGE st \<le> now - servers_time st \<Longrightarrow>
   \<exists>evs. snd (snd (list_servers self hv now resp now' detailed st))
            = LockAcquire (servers st = []) # evs"
  by (simp add: list_servers_def split: option.splits bool.splits prod.splits)

lemma list_servers_blocks:
  "SERVER_AGE st \<le> now - servers_time st \<Longrightarrow> servers_lock st \<Longrightarrow> servers st = [] \<Longrightarrow>
   fst (list_servers self hv now resp now' detailed st) = Blocks"
  by (simp add: list_servers_def lock_acquire_def)

lemma list_servers_stale_snapshot:
  "SERVER_AGE st \<le> now - servers_time st \<Longrightarrow> servers_lock st \<Longrightarrow> servers st \<noteq> [] \<Longrightarrow>
   list_servers self hv now resp now' detailed st = (Returns (servers st), st, [LockAcquire False])"
  by (simp add: list_servers_def lock_acquire_def)

lemma u_list_servers_ok:
  "u_list_servers self hv (Inr ss) detailed =
     (Inr (if detailed then map hv ss else ss), [Task ''ServerList''])"
  by (simp add: u_list_servers_def shade_exceptions_def)

lemma list_servers_refreshes:
  "SERVER_AGE st \<le> now - servers_time st \<Longrightarrow> \<not> servers_lock st \<Longrightarrow>
   list_servers self hv now (Inr ss) now' detailed st
     = (Returns (if detailed then map hv ss else ss),
        st\<lparr>servers := (if detailed then map hv ss else ss), servers_time := now'\<rparr>,
        [LockAcquire (servers st = []), Task ''ServerList'',
         StoreServers, StoreServersTime, LockRelease])"
  by (simp add: list_servers_def list_servers_refresh_def u_list_servers_ok lock_acquire_def)

text \<open>
  Claim C2. At a call of \<^verbatim>\<open>list_servers\<close>: while the time since the last fetch is under
  \<^verbatim>\<open>_SERVER_AGE\<close> the stored snapshot is returned, the state is unchanged and nothing
  happens (no task, no lock operation). Once the age limit has elapsed, the first thing
  the call does is to acquire the lock, blocking exactly when the snapshot is empty: with
  the lock held elsewhere and an empty snapshot the caller is suspended; with the lock held
  elsewhere and a snapshot that is not empty the caller gets that snapshot back at once, with
  no task submitted; with the lock free and a \<^verbatim>\<open>ServerList\<close> task that succeeds, the caller
  gets the new list, and the new snapshot and then the new timestamp are stored before the
  lock is released.
\<close>

theorem list_servers_age_gating:
  "(now - servers_time st < SERVER_AGE st \<longrightarrow>
      list_servers self hv now resp now' detailed st = (Returns (servers st), st, []))
   \<and> (SERVER_AGE st \<le> now - servers_time st \<longrightarrow>
        (\<exists>evs. snd (snd (list_servers self hv now resp now' detailed st))
                 = LockAcquire (servers st = []) # evs))
   \<and> (SERVER_AGE st \<le> now - servers_time st \<and> servers_lock st \<and> servers st = [] \<longrightarrow>
        fst (list_servers self hv now resp now' detailed st) = Blocks)
   \<and> (SERVER_AGE st \<le> now - servers_time st \<and> servers_lock st \<and> servers st \<noteq> [] \<longrightarrow>
        list_servers self hv now resp now' detailed st
          = (Returns (servers st), st, [LockAcquire False]))
   \<and> (SERVER_AGE st \<le> now - servers_time st \<and> \<not> servers_lock st \<longrightarrow>
        list_servers self hv now (Inr ss) now' detailed st
          = (Returns (if detailed then map hv ss else ss),
             st\<lparr>servers := (if detailed then map hv ss else ss), servers_time := now'\<rparr>,
             [LockAcquire (servers st = []), Task ''ServerList'',
              StoreServers, StoreServersTime, LockRelease]))"
  by (intro conjI impI; (elim conjE)?)
     (simp_all add: list_servers_fresh list_servers_acquire_mode list_servers_blocks
        list_servers_stale_snapshot list_servers_refreshes)

text \<open>
  Claim C10. When \<^verbatim>\<open>list_servers\<close> serves the stored snapshot, because it is fresher than the
  age limit or because the lock is held elsewhere and the snapshot is not empty, the call
  with \<^verbatim>\<open>detailed=True\<close> and the call with \<^verbatim>\<open>detailed=False\<close> are the same in result, state
  and events: the caller gets \<^verbatim>\<open>self._servers\<close> as the last refresh stored it, and the state
  is left as it was.
\<close>

theorem list_servers_snapshot_ignores_detailed:
  assumes "now - servers_time st < SERVER_AGE st
           \<or> (SERVER_AGE st \<le> now - servers_time st \<and> servers_lock st \<and> servers st \<noteq> [])"
  shows "list_servers self hv now resp now' True st = list_servers self hv now resp now' False st
       \<and> fst (list_servers self hv now resp now' detailed st) = Returns (servers st)
       \<and> fst (snd (list_servers self hv now resp now' detailed st)) = st"
  using assms
  by (elim disjE conjE) (simp_all add: list_servers_fresh list_servers_stale_snapshot)


text \<open>
  The four cases at concrete states: a fresh snapshot; an empty snapshot with the lock held;
  a stale snapshot with the lock held; a stale snapshot with the lock free.
\<close>

theorem list_servers_age_gating_witness:
  "list_servers \<lparr>name = ''c'', region_name = ''r''\<rparr> id 103 (Inr []) 104 False
     \<lparr>servers = [\<lparr>server_id = ''s1'', server_image_id = None, addresses = []\<rparr>],
      servers_time = 100, SERVER_AGE = 5, servers_lock = False\<rparr>
   = (Returns [\<lparr>server_id = ''s1'', server_image_id = None, addresses = []\<rparr>],
      \<lparr>servers = [\<lparr>server_id = ''s1'', server_image_id = None, addresses = []\<rparr>],
       servers_time = 100, SERVER_AGE = 5, servers_lock = False\<rparr>, [])
   \<and> fst (list_servers \<lparr>name = ''c'', region_name = ''r''\<rparr> id 106 (Inr []) 107 False
       \<lparr>servers = [], servers_time = 0, SERVER_AGE = 5, servers_lock = True\<rparr>) = Blocks
   \<and> list_servers \<lparr>name = ''c'', region_name = ''r''\<rparr> id 106 (Inr []) 107 False
       \<lparr>servers = [\<lparr>server_id = ''s1'', server_image_id = None, addresses = []\<rparr>],
        servers_time = 100, SERVER_AGE = 5, servers_lock = True\<rparr>
     = (Returns [\<lparr>server_id = ''s1'', server_image_id = None, addresses = []\<rparr>],
        \<lparr>servers = [\<lparr>server_id = ''s1'', server_image_id = None, addresses = []\<rparr>],
         servers_time = 100, SERVER_AGE = 5, servers_lock = True\<rparr>, [LockAcquire False])
   \<and> list_servers \<lparr>name = ''c'', region_name = ''r''\<rparr> id 106
       (Inr [\<lparr>server_id = ''s2'', server_image_id = None, addresses = []\<rparr>]) 107 False
       \<lparr>servers = [\<lparr>server_id = ''s1'', server_image_id = None, addresses = []\<rparr>],
        servers_time = 100, SERVER_AGE = 5, servers_lock = False\<rparr>
     = (Returns [\<lparr>server_id = ''s2'', server_image_id = None, addresses = []\<rparr>],
        \<lparr>servers = [\<lparr>server_id = ''s2'', server_image_id = None, addresses = []\<rparr>],
         servers_time = 107, SERVER_AGE = 5, servers_lock = False\<rparr>,
        [LockAcquire False, Task ''ServerList'', StoreServers, StoreServersTime, LockRelease])"
  using
    list_servers_age_gating [where now = 103 and now' = 104 and detailed = False
      and self = "\<lparr>name = ''c'', region_name = ''r''\<rparr>" and hv = id and resp = "Inr []"
      and st = "\<lparr>servers = [\<lparr>server_id = ''s1'', server_image_id = None, addresses = []\<rparr>],
                servers_time = 100, SERVER_AGE = 5, servers_lock = False\<rparr>"]
    list_servers_age_gating [where now = 106 and now' = 107 and detailed = False
      and self = "\<lparr>name = ''c'', region_name = ''r''\<rparr>" and hv = id and resp = "Inr []"
      and st = "\<lparr>servers = [], servers_time = 0, SERVER_AGE = 5, servers_lock = True\<rparr>"]
    list_servers_age_gating [where now = 106 and now' = 107 and detailed = False
      and self = "\<lparr>name = ''c'', region_name = ''r''\<rparr>" and hv = id and resp = "Inr []"
      and st = "\<lparr>servers = [\<lparr>server_id = ''s1'', server_image_id = None, addresses = []\<rparr>],
                servers_time = 100, SERVER_AGE = 5, servers_lock = True\<rparr>"]
    list_servers_age_gating [where now = 106 and now' = 107 and detailed = False
      and self = "\<lparr>name = ''c'', region_name = ''r''\<rparr>" and hv = id
      and ss = "[\<lparr>server_id = ''s2'', server_image_id = None, addresses = []\<rparr>]"
      and st = "\<lparr>servers = [\<lparr>server_id = ''s1'', server_image_id = None, addresses = []\<rparr>],
                servers_time = 100, SERVER_AGE = 5, servers_lock = False\<rparr>"]
  by simp

text \<open>
  Both cases at concrete states: a stale snapshot with the lock held elsewhere, and a fresh
  snapshot.
\<close>

theorem list_servers_snapshot_ignores_detailed_witness:
  "list_servers \<lparr>name = ''c'', region_name = ''r''\<rparr> id 106 (Inr []) 107 True
     \<lparr>servers = [\<lparr>server_id = ''s1'', server_image_id = None, addresses = []\<rparr>],
      servers_time = 100, SERVER_AGE = 5, servers_lock = True\<rparr>
   = list_servers \<lparr>name = ''c'', region_name = ''r''\<rparr> id 106 (Inr []) 107 False
     \<lparr>servers = [\<lparr>server_id = ''s1'', server_image_id = None, addresses = []\<rparr>],
      servers_time = 100, SERVER_AGE = 5, servers_lock = True\<rparr>
   \<and> list_servers \<lparr>name = ''c'', region_name = ''r''\<rparr> id 103 (Inr []) 104 True
     \<lparr>servers = [\<lparr>server_id = ''s1'', server_image_id = None, addresses = []\<rparr>],
      servers_time = 100, SERVER_AGE = 5, servers_lock = False\<rparr>
   = list_servers \<lparr>name = ''c'', region_name = ''r''\<rparr> id 103 (Inr []) 104 False
     \<lparr>servers = [\<lparr>server_id = ''s1'', server_image_id = None, addresses = []\<rparr>],
      servers_time = 100, SERVER_AGE = 5, servers_lock = False\<rparr>"
  using
    list_servers_snapshot_ignores_detailed [where now = 106 and now' = 107
      and self = "\<lparr>name = ''c'', region_name = ''r''\<rparr>" and hv = id and resp = "Inr []"
      and st = "\<lparr>servers = [\<lparr>server_id = ''s1'', server_image_id = None, addresses = []\<rparr>],
                servers_time = 100, SERVER_AGE = 5, servers_lock = True\<rparr>"]
    list_servers_snapshot_ignores_detailed [where now = 103 and now' = 104
      and self = "\<lparr>name = ''c'', region_name = ''r''\<rparr>" and hv = id and resp = "Inr []"
      and st = "\<lparr>servers = [\<lparr>server_id = ''s1'', server_image_id = None, addresses = []\<rparr>],
                servers_time = 100, SERVER_AGE = 5, servers_lock = False\<rparr>"]
  by simp

section \<open>Properties of the floating-IP verbs\<close>

text \<open>
  The three dual-backend verbs that do fall back: on \<^verbatim>\<open>OpenStackCloudURINotFound\<close> from
  neutron they log and go on to nova, whose normalized result they return; any other
  exception of neutron leaves the verb as it is, with no log line and no nova call
  (\<^verbatim>\<open>delete_floating_ip\<close> also turns neutron's \<^verbatim>\<open>OpenStackCloudResourceNotFound\<close> into \<^verbatim>\<open>False\<close>).
\<close>

lemma list_floating_ips_fallback:
  "list_floating_ips nn nv True (Inl (OpenStackCloudURINotFound m)) (Inr raw)
     = (Inr (map nv raw),
        [Task ''NeutronFloatingIPList'', LogDebug (trying_with_nova (OpenStackCloudURINotFound m)),
         Task ''NovaFloatingIPList''])"
  by (simp add: list_floating_ips_def u_nova_list_floating_ips_def shade_exceptions_def)

lemma list_floating_ips_other_error:
  "\<forall>m. e \<noteq> OpenStackCloudURINotFound m \<Longrightarrow>
   list_floating_ips nn nv True (Inl e) nova = (Inl e, [Task ''NeutronFloatingIPList''])"
  by (cases e) (simp_all add: list_floating_ips_def)

lemma create_floating_ip_fallback:
  "create_floating_ip nn nv True (Inl (OpenStackCloudURINotFound m)) (Inr raw)
     = (Inr (nv raw),
        [Call ''_neutron_create_floating_ip'', LogDebug (trying_with_nova (OpenStackCloudURINotFound m)),
         Call ''_nova_create_floating_ip''])"
  by (simp add: create_floating_ip_def)

lemma create_floating_ip_other_error:
  "\<forall>m. e \<noteq> OpenStackCloudURINotFound m \<Longrightarrow>
   create_floating_ip nn nv True (Inl e) nova = (Inl e, [Call ''_neutron_create_floating_ip''])"
  by (cases e) (simp_all add: create_floating_ip_def)

lemma delete_floating_ip_fallback:
  "delete_floating_ip True (Inl (OpenStackCloudURINotFound m)) (Inr ()) fid
     = (Inr True,
        [Task ''NeutronFloatingIPDelete'', LogDebug (trying_with_nova (OpenStackCloudURINotFound m)),
         Task ''NovaFloatingIPDelete''])"
  by (simp add: delete_floating_ip_def u_neutron_delete_floating_ip_def u_nova_delete_floating_ip_def)

lemma delete_floating_ip_other_error:
  "\<forall>m. e \<noteq> OpenStackCloudURINotFound m \<Longrightarrow> \<forall>m. e \<noteq> OpenStackCloudResourceNotFound m \<Longrightarrow>
   delete_floating_ip True (Inl e) nova fid = (Inl e, [Task ''NeutronFloatingIPDelete''])"
  by (cases e) (simp_all add: delete_floating_ip_def u_neutron_delete_floating_ip_def)

text \<open>
  Claim C3, at the input where the code departs from it. On a cloud with the network
  service, \<^verbatim>\<open>_attach_ip_to_server\<close> whose neutron call raises \<^verbatim>\<open>OpenStackCloudURINotFound\<close>
  logs "Trying with Nova." and then returns the server it was given: the nova call stands
  in the \<^verbatim>\<open>else\<close> branch of \<^verbatim>\<open>if self.has_service('network')\<close>, which this path never reaches,
  so nothing is attached and no error is raised.
\<close>

theorem attach_ip_no_nova_fallback:
  "u_attach_ip_to_server (\<lambda>s. None) True (Inl (OpenStackCloudURINotFound ''404'')) (Inr ())
     (\<lambda>k. 0) (\<lambda>k. Inl (OtherError ''unused''))
     \<lparr>server_id = ''s1'', server_image_id = None, addresses = []\<rparr>
     \<lparr>fip_id = ''f1'', floating_ip_address = ''203.0.113.7''\<rparr>
     False (Some 60) False
   = Some (Inr \<lparr>server_id = ''s1'', server_image_id = None, addresses = []\<rparr>,
           [Call ''_neutron_attach_ip_to_server'',
            LogDebug (trying_with_nova (OpenStackCloudURINotFound ''404''))])"
  by (simp add: u_attach_ip_to_server_def)

text \<open>
  More generally: with the network service, a call without \<^verbatim>\<open>wait\<close> never reaches
  \<^verbatim>\<open>_nova_attach_ip_to_server\<close>, whatever neutron answers.
\<close>

lemma attach_ip_never_nova_with_network:
  "u_attach_ip_to_server gip True neutron nova clock gsbi server fip False timeout skip = Some (r, evs)
   \<Longrightarrow> Call ''_nova_attach_ip_to_server'' \<notin> set evs"
  by (auto simp: u_attach_ip_to_server_def split: if_splits sum.splits)

text \<open>
  Claim C9. If the floating address that the server already carries
  (\<^verbatim>\<open>meta.get_server_ip(server, ext_tag='floating')\<close>) equals
  \<^verbatim>\<open>floating_ip['floating_ip_address']\<close>, then \<^verbatim>\<open>_attach_ip_to_server\<close> returns the server it was
  given, with no event at all: no backend method is called, no task submitted and no poll
  made, whatever the other arguments and the state of the backends are.
\<close>

theorem attach_ip_already_attached:
  assumes "get_server_ip server = Some (floating_ip_address floating_ip)"
  shows "u_attach_ip_to_server get_server_ip has_network neutron nova clock get_server_by_id
           server floating_ip wait timeout skip_attach = Some (Inr server, [])"
  using assms by (simp add: u_attach_ip_to_server_def)

text \<open>
  A server that carries 203.0.113.7, asked to attach 203.0.113.7 with \<^verbatim>\<open>wait=True\<close> and no
  timeout, while both backends are down.
\<close>

theorem attach_ip_already_attached_witness:
  "u_attach_ip_to_server (\<lambda>s. map_of (addresses s) ''floating'') True
     (Inl (OtherError ''neutron is down'')) (Inl (OtherError ''nova is down''))
     (\<lambda>k. 0) (\<lambda>k. Inl (OtherError ''nova is down''))
     \<lparr>server_id = ''s1'', server_image_id = None, addresses = [(''floating'', ''203.0.113.7'')]\<rparr>
     \<lparr>fip_id = ''f1'', floating_ip_address = ''203.0.113.7''\<rparr>
     True None False
   = Some (Inr \<lparr>server_id = ''s1'', server_image_id = None,
                addresses = [(''floating'', ''203.0.113.7'')]\<rparr>, [])"
  using attach_ip_already_attached
    [where get_server_ip = "\<lambda>s. map_of (addresses s) ''floating''"
       and server = "\<lparr>server_id = ''s1'', server_image_id = None,
                       addresses = [(''floating'', ''203.0.113.7'')]\<rparr>"
       and floating_ip = "\<lparr>fip_id = ''f1'', floating_ip_address = ''203.0.113.7''\<rparr>"]
  by simp

section \<open>Properties of volume creation\<close>

lemma pending_body:
  "volume_pending (get_volume k) \<Longrightarrow>
   \<exists>s'. create_volume_wait_body get_volume k s = (Continue s', [Call ''get_volume''])"
  by (auto simp: volume_pending_def create_volume_wait_body_def split: sum.splits option.splits)

lemma create_volume_wait_skip:
  "(\<And>j. j < n \<Longrightarrow> volume_pending (get_volume (k + j)) \<and> \<not> timed_out timeout clock (Suc (k + j))) \<Longrightarrow>
   \<exists>s'. iterate_timeout timeout msg clock (create_volume_wait_body get_volume) k s tr
       = iterate_timeout timeout msg clock (create_volume_wait_body get_volume) (k + n) s'
           (tr @ replicate n (Call ''get_volume''))"
proof (induction n arbitrary: k s tr)
  case 0
  show ?case by auto
next
  case (Suc n)
  have first: "volume_pending (get_volume k)" "\<not> timed_out timeout clock (Suc k)"
    using Suc.prems [of 0] by simp_all
  obtain s1 where body: "create_volume_wait_body get_volume k s = (Continue s1, [Call ''get_volume''])"
    using pending_body [of get_volume k s] first(1) by blast
  have step: "iterate_timeout timeout msg clock (create_volume_wait_body get_volume) k s tr
      = iterate_timeout timeout msg clock (create_volume_wait_body get_volume) (Suc k) s1
          (tr @ [Call ''get_volume''])"
    by (subst iterate_timeout.simps) (simp add: first(2) body)
  have rest: "\<And>j. j < n \<Longrightarrow> volume_pending (get_volume (Suc k + j))
      \<and> \<not> timed_out timeout clock (Suc (Suc k + j))"
    using Suc.prems by (metis Suc_less_eq add_Suc_right add_Suc)
  obtain s' where
    "iterate_timeout timeout msg clock (create_volume_wait_body get_volume) (Suc k) s1
       (tr @ [Call ''get_volume''])
     = iterate_timeout timeout msg clock (create_volume_wait_body get_volume) (Suc k + n) s'
       ((tr @ [Call ''get_volume'']) @ replicate n (Call ''get_volume''))"
    using Suc.IH [OF rest] by blast
  then show ?case
    using step by (auto simp: replicate_append_same)
qed

lemma create_volume_wait_terminal:
  assumes pend: "\<And>j. j < n \<Longrightarrow> volume_pending (get_volume j) \<and> \<not> timed_out timeout clock (Suc j)"
  shows "iterate_timeout timeout msg clock (create_volume_wait_body get_volume) 0 s tr =
     (if timed_out timeout clock (Suc n)
      then Some (Inl (OpenStackCloudTimeout msg), tr @ replicate n (Call ''get_volume''))
      else
        (case get_volume n of
           Inl e \<Rightarrow> Some (Inl e, tr @ replicate (Suc n) (Call ''get_volume''))
         | Inr None \<Rightarrow>
             iterate_timeout timeout msg clock (create_volume_wait_body get_volume) (Suc n) None
               (tr @ replicate (Suc n) (Call ''get_volume''))
         | Inr (Some v) \<Rightarrow>
             if volume_status v = ''available''
             then Some (Inr (Inr v), tr @ replicate (Suc n) (Call ''get_volume''))
             else if volume_status v = ''error''
             then Some (Inl (OpenStackCloudException ''Error in creating volume, please check logs''),
                        tr @ replicate (Suc n) (Call ''get_volume''))
             else iterate_timeout timeout msg clock (create_volume_wait_body get_volume) (Suc n)
                    (Some v) (tr @ replicate (Suc n) (Call ''get_volume''))))"
proof -
  obtain s' where skip:
    "iterate_timeout timeout msg clock (create_volume_wait_body get_volume) 0 s tr
       = iterate_timeout timeout msg clock (create_volume_wait_body get_volume) n s'
           (tr @ replicate n (Call ''get_volume''))"
    using create_volume_wait_skip [of n get_volume 0 timeout clock msg s tr] pend by auto
  show ?thesis
    unfolding skip
    by (subst iterate_timeout.simps)
       (simp add: create_volume_wait_body_def replicate_append_same
          split: sum.splits option.splits)
qed

text \<open>
  Claim C4. \<^verbatim>\<open>create_volume\<close> with \<^verbatim>\<open>wait=True\<close>, once the create task has returned a volume
  whose status is not \<^verbatim>\<open>'error'\<close>, re-reads the volume by id. Let the first \<open>n\<close> reads be
  pending (a missing volume, or a status other than \<^verbatim>\<open>'available'\<close> and \<^verbatim>\<open>'error'\<close>) with the
  timeout not yet elapsed before each of them: the loop polled on through all of them. Then
  (a) if read \<open>n\<close> happens in time and shows \<^verbatim>\<open>'available'\<close>, the verb returns that descriptor
  after exactly \<open>n + 1\<close> polls; (b) if it shows \<^verbatim>\<open>'error'\<close>, the verb raises
  \<^verbatim>\<open>OpenStackCloudException\<close> after exactly \<open>n + 1\<close> polls; (d) if the timeout has elapsed
  before read \<open>n\<close>, the verb raises \<^verbatim>\<open>OpenStackCloudTimeout\<close> after exactly \<open>n\<close> polls. In each
  case the verb does return or raise: the result is \<open>Some\<close>.
\<close>

theorem create_volume_convergence:
  assumes "create = Inr created" and "volume_status created \<noteq> ''error''"
    and "\<And>j. j < n \<Longrightarrow> volume_pending (get_volume j) \<and> \<not> timed_out timeout clock (Suc j)"
  shows
    "(\<not> timed_out timeout clock (Suc n) \<and> get_volume n = Inr (Some v)
        \<and> volume_status v = ''available'' \<longrightarrow>
      create_volume normalize_volume get_image create clock get_volume True timeout None
        = Some (Inr v, [Task ''VolumeCreate'', Invalidate ''list_volumes'']
                         @ replicate (Suc n) (Call ''get_volume'')))
     \<and> (\<not> timed_out timeout clock (Suc n) \<and> get_volume n = Inr (Some v)
        \<and> volume_status v = ''error'' \<longrightarrow>
      create_volume normalize_volume get_image create clock get_volume True timeout None
        = Some (Inl (OpenStackCloudException ''Error in creating volume, please check logs''),
                [Task ''VolumeCreate'', Invalidate ''list_volumes'']
                  @ replicate (Suc n) (Call ''get_volume'')))
     \<and> (timed_out timeout clock (Suc n) \<longrightarrow>
      create_volume normalize_volume get_image create clock get_volume True timeout None
        = Some (Inl (OpenStackCloudTimeout ''Timeout waiting for the volume to be available.''),
                [Task ''VolumeCreate'', Invalidate ''list_volumes'']
                  @ replicate n (Call ''get_volume'')))"
proof -
  have cv: "create_volume normalize_volume get_image create clock get_volume True timeout None =
    (case iterate_timeout timeout ''Timeout waiting for the volume to be available.''
            clock (create_volume_wait_body get_volume) 0 (Some created)
            [Task ''VolumeCreate'', Invalidate ''list_volumes''] of
       None \<Rightarrow> None
     | Some (Inl e, tr) \<Rightarrow> Some (Inl e, tr)
     | Some (Inr (Inr v), tr) \<Rightarrow> Some (Inr v, tr)
     | Some (Inr (Inl None), tr) \<Rightarrow>
         Some (Inl (TypeError ''NoneType object is not subscriptable''), tr)
     | Some (Inr (Inl (Some v)), tr) \<Rightarrow> Some (Inr (normalize_volume v), tr))"
    using assms(1,2) by (simp add: create_volume_def create_volume_image_def shade_exceptions_def)
  note terminal = create_volume_wait_terminal [OF assms(3), where s = "Some created"
      and tr = "[Task ''VolumeCreate'', Invalidate ''list_volumes'']"
      and msg = "''Timeout waiting for the volume to be available.''"]
  show ?thesis
    by (simp add: cv terminal)
qed

text \<open>
  The scenario of the specification: \<^verbatim>\<open>timeout=5\<close>, the clock read every 2 seconds, a backend
  that reports \<^verbatim>\<open>'creating'\<close> once and then \<^verbatim>\<open>'available'\<close>: the descriptor with status
  \<^verbatim>\<open>'available'\<close> comes back after exactly 2 polls. With a backend that stays at
  \<^verbatim>\<open>'creating'\<close>, the third reading of the clock (6 seconds) is past the timeout: the verb
  raises the timeout error after 2 polls.
\<close>

theorem create_volume_convergence_witness:
  "create_volume id (Inr None) (Inr \<lparr>volume_id = ''v1'', volume_status = ''creating''\<rparr>)
     (\<lambda>k. 2 * real k)
     (\<lambda>k. if k = 0 then Inr (Some \<lparr>volume_id = ''v1'', volume_status = ''creating''\<rparr>)
          else Inr (Some \<lparr>volume_id = ''v1'', volume_status = ''available''\<rparr>))
     True (Some 5) None
   = Some (Inr \<lparr>volume_id = ''v1'', volume_status = ''available''\<rparr>,
           [Task ''VolumeCreate'', Invalidate ''list_volumes'',
            Call ''get_volume'', Call ''get_volume''])
   \<and> create_volume id (Inr None) (Inr \<lparr>volume_id = ''v1'', volume_status = ''creating''\<rparr>)
     (\<lambda>k. 2 * real k)
     (\<lambda>k. Inr (Some \<lparr>volume_id = ''v1'', volume_status = ''creating''\<rparr>))
     True (Some 5) None
   = Some (Inl (OpenStackCloudTimeout ''Timeout waiting for the volume to be available.''),
           [Task ''VolumeCreate'', Invalidate ''list_volumes'',
            Call ''get_volume'', Call ''get_volume''])"
proof -
  have p1: "\<And>j. j < 1 \<Longrightarrow>
      volume_pending ((\<lambda>k. if k = 0 then Inr (Some \<lparr>volume_id = ''v1'', volume_status = ''creating''\<rparr>)
          else Inr (Some \<lparr>volume_id = ''v1'', volume_status = ''available''\<rparr>)) j)
      \<and> \<not> timed_out (Some 5) (\<lambda>k. 2 * real k) (Suc j)"
    by (simp add: volume_pending_def timed_out_def)
  have p2: "\<And>j. j < 2 \<Longrightarrow>
      volume_pending ((\<lambda>k. Inr (Some \<lparr>volume_id = ''v1'', volume_status = ''creating''\<rparr>)) j)
      \<and> \<not> timed_out (Some 5) (\<lambda>k. 2 * real k) (Suc j)"
  proof -
    fix j :: nat assume "j < 2"
    then have "j = 0 \<or> j = 1" by auto
    then show "volume_pending ((\<lambda>k. Inr (Some \<lparr>volume_id = ''v1'', volume_status = ''creating''\<rparr>)) j)
      \<and> \<not> timed_out (Some 5) (\<lambda>k. 2 * real k) (Suc j)"
      by (auto simp: volume_pending_def timed_out_def)
  qed
  have s1: "Suc 1 = 2" and s2: "Suc 2 = 3" by simp_all
  note a = create_volume_convergence
    [where n = 1 and timeout = "Some 5" and clock = "\<lambda>k. 2 * real k"
       and get_volume = "\<lambda>k. if k = 0 then Inr (Some \<lparr>volume_id = ''v1'', volume_status = ''creating''\<rparr>)
          else Inr (Some \<lparr>volume_id = ''v1'', volume_status = ''available''\<rparr>)"
       and normalize_volume = id and get_image = "Inr None"
       and create = "Inr \<lparr>volume_id = ''v1'', volume_status = ''creating''\<rparr>"
       and created = "\<lparr>volume_id = ''v1'', volume_status = ''creating''\<rparr>"
       and v = "\<lparr>volume_id = ''v1'', volume_status = ''available''\<rparr>", OF refl _ p1]
  note d = create_volume_convergence
    [where n = 2 and timeout = "Some 5" and clock = "\<lambda>k. 2 * real k"
       and get_volume = "\<lambda>k. Inr (Some \<lparr>volume_id = ''v1'', volume_status = ''creating''\<rparr>)"
       and normalize_volume = id and get_image = "Inr None"
       and create = "Inr \<lparr>volume_id = ''v1'', volume_status = ''creating''\<rparr>"
       and created = "\<lparr>volume_id = ''v1'', volume_status = ''creating''\<rparr>", OF refl _ p2]
  show ?thesis
    using a d by (simp add: timed_out_def s1 s2 numeral_2_eq_2)
qed

text \<open>
  With no timeout, a loop whose body always continues never ends: the result is \<open>None\<close>.
  So \<^verbatim>\<open>create_volume\<close> with \<^verbatim>\<open>wait=True\<close> and \<^verbatim>\<open>timeout=None\<close> never returns while the volume
  stays pending.
\<close>

lemma iterate_timeout_forever_aux:
  assumes "iterate_timeout timeout msg clock body k s tr = Some y"
  shows "\<not> (timeout = None \<and> (\<forall>j s0. \<exists>s' evs. body j s0 = (Continue s', evs)))"
proof (rule iterate_timeout.raw_induct
    [where P = "\<lambda>timeout msg clock body k s tr y.
        \<not> (timeout = None \<and> (\<forall>j s0. \<exists>s' evs. body j s0 = (Continue s', evs)))", OF _ assms])
  fix it timeout msg clock and body :: "nat \<Rightarrow> 'a \<Rightarrow> ('a, 'b) step \<times> event list"
    and k s tr and y :: "(error + 'a + 'b) \<times> event list"
  assume IH: "\<And>ta ma ca ba ka sa tra ya.
        it ta ma ca ba ka sa tra = Some ya \<Longrightarrow>
        \<not> (ta = None \<and> (\<forall>j s0. \<exists>s' evs. ba j s0 = (Continue s', evs)))"
    and eq: "(if timed_out timeout clock (Suc k)
      then Some (Inl (OpenStackCloudTimeout msg), tr)
      else case body k s of
           (Continue s', evs) \<Rightarrow> it timeout msg clock body (Suc k) s' (tr @ evs)
           | (Break s', evs) \<Rightarrow> Some (Inr (Inl s'), tr @ evs)
           | (Return a, evs) \<Rightarrow> Some (Inr (Inr a), tr @ evs)
           | (Raise e, evs) \<Rightarrow> Some (Inl e, tr @ evs)) = Some y"
  show "\<not> (timeout = None \<and> (\<forall>j s0. \<exists>s' evs. body j s0 = (Continue s', evs)))"
  proof
    assume a: "timeout = None \<and> (\<forall>j s0. \<exists>s' evs. body j s0 = (Continue s', evs))"
    then obtain s' evs where b: "body k s = (Continue s', evs)" by blast
    from a have "\<not> timed_out timeout clock (Suc k)" by (simp add: timed_out_def)
    with eq b have "it timeout msg clock body (Suc k) s' (tr @ evs) = Some y" by simp
    from IH [OF this] a show False by blast
  qed
qed

lemma iterate_timeout_forever:
  assumes "\<And>j s0. \<exists>s' evs. body j s0 = (Continue s', evs)"
  shows "iterate_timeout None msg clock body k s tr = None"
proof (cases "iterate_timeout None msg clock body k s tr")
  case None
  then show ?thesis .
next
  case (Some y)
  from iterate_timeout_forever_aux [OF Some] assms show ?thesis by blast
qed

lemma create_volume_waits_forever:
  assumes "create = Inr created" and "volume_status created \<noteq> ''error''"
    and "\<And>j. volume_pending (get_volume j)"
  shows "create_volume normalize_volume get_image create clock get_volume True None None = None"
proof -
  have "\<exists>s' evs. create_volume_wait_body get_volume j s0 = (Continue s', evs)" for j s0
    using assms(3) [of j]
    by (auto simp: volume_pending_def create_volume_wait_body_def split: sum.splits option.splits)
  then have "iterate_timeout None ''Timeout waiting for the volume to be available.''
      clock (create_volume_wait_body get_volume) 0 (Some created)
      [Task ''VolumeCreate'', Invalidate ''list_volumes''] = None"
    by (rule iterate_timeout_forever)
  then show ?thesis
    using assms(1,2)
    by (simp add: create_volume_def create_volume_image_def shade_exceptions_def)
qed

section \<open>Properties of the mutation verbs\<close>

text \<open>
  A loop only adds events: the events of a finished loop start with the events it was
  entered with.
\<close>

lemma iterate_timeout_extends_aux:
  assumes "iterate_timeout timeout msg clock body k s tr = Some y"
  shows "\<exists>evs. snd y = tr @ evs"
proof (rule iterate_timeout.raw_induct
    [where P = "\<lambda>timeout msg clock body k s tr y. \<exists>evs. snd y = tr @ evs", OF _ assms])
  fix it timeout msg clock and body :: "nat \<Rightarrow> 'a \<Rightarrow> ('a, 'b) step \<times> event list"
    and k s tr and y :: "(error + 'a + 'b) \<times> event list"
  assume IH: "\<And>ta ma ca ba ka sa tra ya.
        it ta ma ca ba ka sa tra = Some ya \<Longrightarrow> \<exists>evs. snd ya = tra @ evs"
    and eq: "(if timed_out timeout clock (Suc k)
      then Some (Inl (OpenStackCloudTimeout msg), tr)
      else case body k s of
           (Continue s', evs) \<Rightarrow> it timeout msg clock body (Suc k) s' (tr @ evs)
           | (Break s', evs) \<Rightarrow> Some (Inr (Inl s'), tr @ evs)
           | (Return a, evs) \<Rightarrow> Some (Inr (Inr a), tr @ evs)
           | (Raise e, evs) \<Rightarrow> Some (Inl e, tr @ evs)) = Some y"
  show "\<exists>evs. snd y = tr @ evs"
  proof (cases "timed_out timeout clock (Suc k)")
    case True
    with eq show ?thesis by auto
  next
    case False
    obtain st evs where b: "body k s = (st, evs)" by (cases "body k s")
    show ?thesis
    proof (cases st)
      case (Continue s')
      with eq False b have "it timeout msg clock body (Suc k) s' (tr @ evs) = Some y" by simp
      from IH [OF this] show ?thesis by auto
    qed (use eq False b in auto)
  qed
qed

lemma iterate_timeout_extends:
  "iterate_timeout timeout msg clock body k s tr = Some (r, tr') \<Longrightarrow> \<exists>evs. tr' = tr @ evs"
  using iterate_timeout_extends_aux by fastforce


















text \<open>
  The delete verbs that are boolean: \<^verbatim>\<open>False\<close> for a target that is absent (or that the
  backend reports as not found), \<^verbatim>\<open>True\<close> once the delete task has gone through.
\<close>

lemma delete_volume_absent:
  "delete_volume (Inr None) vd clock gvi name_or_id wait timeout
     = Some (Inr False, [Invalidate ''list_volumes'', Call ''get_volume'',
                         LogDebug (''Volume '' @ name_or_id @ '' does not exist'')])"
  by (simp add: delete_volume_def)

lemma delete_volume_deletes:
  "delete_volume (Inr (Some vol)) (Inr ()) clock gvi name_or_id False timeout
     = Some (Inr True, [Invalidate ''list_volumes'', Call ''get_volume'', Task ''VolumeDelete'',
                        Invalidate ''list_volumes''])"
  by (simp add: delete_volume_def shade_exceptions_def)

lemma delete_server_absent:
  "delete_server gip sfi dfi sd clock gsbi hv gv (Inr None) st wait timeout dips
     = Some (Inr False, st, [Call ''get_server''])"
  by (simp add: delete_server_def)

lemma delete_server_already_gone:
  "delete_server gip sfi dfi (Inl (NovaNotFound m)) clock gsbi hv gv (Inr (Some srv)) st wait timeout False
     = Some (Inr False, st, [Call ''get_server'', Task ''ServerDelete''])"
  by (simp add: delete_server_def u_delete_server_def delete_server_ips_def)

lemma delete_server_deletes:
  "delete_server gip sfi dfi (Inr ()) clock gsbi hv gv (Inr (Some srv)) st False timeout False
     = Some (Inr True, st, [Call ''get_server'', Task ''ServerDelete''])"
  by (simp add: delete_server_def u_delete_server_def delete_server_ips_def)

lemma delete_stack_absent:
  "delete_stack (Inr None) sd name_or_id
     = (Inr False, [Call ''get_stack'',
                    LogDebug (''Stack '' @ name_or_id @ '' not found for deleting'')])"
  by (simp add: delete_stack_def)

lemma delete_stack_deletes:
  "delete_stack (Inr (Some stk)) (Inr ()) name_or_id
     = (Inr True, [Call ''get_stack'', Task ''StackDelete''])"
  by (simp add: delete_stack_def shade_exceptions_def)

lemma delete_security_group_absent:
  "delete_security_group src (Inr None) neutron nova name_or_id
     = (Inr False, [Call ''get_security_group'',
                    LogDebug (''Security group '' @ name_or_id @ '' not found for deleting'')])"
  by (simp add: delete_security_group_def)

lemma delete_security_group_deletes:
  "delete_security_group ''neutron'' (Inr (Some g)) (Inr ()) nova name_or_id
     = (Inr True, [Call ''get_security_group'', Task ''NeutronSecurityGroupDelete''])"
  "delete_security_group ''nova'' (Inr (Some g)) neutron (Inr ()) name_or_id
     = (Inr True, [Call ''get_security_group'', Task ''NovaSecurityGroupDelete''])"
  by (simp_all add: delete_security_group_def shade_exceptions_def)

lemma delete_floating_ip_absent:
  "delete_floating_ip True (Inl (OpenStackCloudResourceNotFound m)) nova fid
     = (Inr False, [Task ''NeutronFloatingIPDelete''])"
  "delete_floating_ip False neutron (Inl (NovaNotFound m)) fid
     = (Inr False, [Task ''NovaFloatingIPDelete''])"
  by (simp_all add: delete_floating_ip_def u_neutron_delete_floating_ip_def
      u_nova_delete_floating_ip_def)

lemma delete_floating_ip_deletes:
  "delete_floating_ip True (Inr ()) nova fid = (Inr True, [Task ''NeutronFloatingIPDelete''])"
  "delete_floating_ip False neutron (Inr ()) fid = (Inr True, [Task ''NovaFloatingIPDelete''])"
  by (simp_all add: delete_floating_ip_def u_neutron_delete_floating_ip_def
      u_nova_delete_floating_ip_def)

text \<open>
  Claim C5, at the inputs where the code departs from it. \<^verbatim>\<open>delete_image\<close> of an image that
  does not exist (\<^verbatim>\<open>get_image\<close> gives \<^verbatim>\<open>None\<close>, image API version 2) raises
  \<^verbatim>\<open>OpenStackCloudException\<close>: \<^verbatim>\<open>image.id\<close> on \<^verbatim>\<open>None\<close> is an \<^verbatim>\<open>AttributeError\<close>, which the
  context manager wraps. \<^verbatim>\<open>delete_image\<close> of an image that exists deletes it and returns
  \<^verbatim>\<open>None\<close>, not \<^verbatim>\<open>True\<close>.
\<close>

theorem delete_image_not_boolean:
  "delete_image (Inr None) ''2'' (Inr ()) (\<lambda>k. real k) (\<lambda>k. Inr None) False (Some 3600)
     = Some (Inl (OpenStackCloudException ''Error in deleting image''), [Call ''get_image''])
   \<and> delete_image (Inr (Some \<lparr>image_id = ''i1'', image_status = ''active''\<rparr>)) ''2'' (Inr ())
       (\<lambda>k. real k) (\<lambda>k. Inr None) False (Some 3600)
     = Some (Inr None, [Call ''get_image'', Task ''ImageDelete'', Invalidate ''list_images''])"
  by (simp add: delete_image_def shade_exceptions_def)

text \<open>Whenever \<^verbatim>\<open>delete_image\<close> returns, it returns \<^verbatim>\<open>None\<close>.\<close>

lemma delete_image_never_boolean:
  "delete_image gi version idel clock gibi wait timeout = Some (Inr r, tr) \<Longrightarrow> r = None"
  by (auto simp: delete_image_def split: sum.splits option.splits prod.splits if_splits)

section \<open>Properties of the image import\<close>

text \<open>
  One iteration of the wait loop on a poll that reports \<^verbatim>\<open>'failure'\<close>: with the message
  \<^verbatim>\<open>IMAGE_ERROR_396\<close> the import task is submitted again, once, and the loop continues; with
  any other message the iteration raises, and no task is submitted.
\<close>

lemma upload_body_396:
  assumes "found_image_id s = None"
    and "task_get (glance_task s) k = Inr st"
    and "task_status st = ''failure''" and "task_message st = IMAGE_ERROR_396"
    and "task_create (submissions s) = Inr t"
  shows "upload_image_wait_body task_create task_get gi uip giu k s
    = (Continue (s\<lparr>status := Some st, glance_task := t, submissions := Suc (submissions s)\<rparr>),
       [Task ''ImageTaskGet'', Task ''ImageTaskCreate'', Invalidate ''list_images''])"
  using assms
  by (simp add: upload_image_wait_body_def upload_image_poll_def upload_image_failure_def)

lemma upload_body_other_failure:
  assumes "found_image_id s = None"
    and "task_get (glance_task s) k = Inr st"
    and "task_status st = ''failure''" and "task_message st \<noteq> IMAGE_ERROR_396"
  shows "upload_image_wait_body task_create task_get gi uip giu k s
    = (Raise (OpenStackCloudException (''Image creation failed: '' @ task_message st)),
       [Task ''ImageTaskGet''])"
  using assms
  by (simp add: upload_image_wait_body_def upload_image_poll_def upload_image_failure_def)

text \<open>
  A run of \<open>n\<close> polls that all report the failure 396: each is followed by one new task,
  and the loop goes on with that task.
\<close>

lemma upload_skip_396:
  assumes "\<And>j. j < n \<Longrightarrow> \<not> timed_out timeout clock (Suc (k + j))
              \<and> (\<exists>st. task_get (tid (k + j)) (k + j) = Inr st \<and> task_status st = ''failure''
                     \<and> task_message st = IMAGE_ERROR_396)
              \<and> task_create (Suc (k + j)) = Inr (tid (Suc (k + j)))"
    and "glance_task s = tid k" and "found_image_id s = None" and "submissions s = Suc k"
  shows "\<exists>s'. iterate_timeout timeout msg clock
             (upload_image_wait_body task_create task_get gi uip giu) k s tr
         = iterate_timeout timeout msg clock
             (upload_image_wait_body task_create task_get gi uip giu) (k + n) s'
             (tr @ concat (replicate n [Task ''ImageTaskGet'', Task ''ImageTaskCreate'',
                                        Invalidate ''list_images'']))
         \<and> glance_task s' = tid (k + n) \<and> found_image_id s' = None \<and> submissions s' = Suc (k + n)"
  using assms
proof (induction n arbitrary: k s tr)
  case 0
  then show ?case by auto
next
  case (Suc n)
  from Suc.prems(1) [of 0] obtain st where
    nt: "\<not> timed_out timeout clock (Suc k)"
    and tg: "task_get (tid k) k = Inr st" "task_status st = ''failure''"
      "task_message st = IMAGE_ERROR_396"
    and tc: "task_create (Suc k) = Inr (tid (Suc k))"
    by auto
  let ?s1 = "s\<lparr>status := Some st, glance_task := tid (Suc k), submissions := Suc (submissions s)\<rparr>"
  have body: "upload_image_wait_body task_create task_get gi uip giu k s
      = (Continue ?s1, [Task ''ImageTaskGet'', Task ''ImageTaskCreate'', Invalidate ''list_images''])"
    using upload_body_396 [of s task_get k st task_create "tid (Suc k)" gi uip giu]
      Suc.prems(2,3,4) tg tc by simp
  have step: "iterate_timeout timeout msg clock
         (upload_image_wait_body task_create task_get gi uip giu) k s tr
      = iterate_timeout timeout msg clock
         (upload_image_wait_body task_create task_get gi uip giu) (Suc k) ?s1
         (tr @ [Task ''ImageTaskGet'', Task ''ImageTaskCreate'', Invalidate ''list_images''])"
    by (subst iterate_timeout.simps) (simp add: nt body)
  have rest: "\<And>j. j < n \<Longrightarrow> \<not> timed_out timeout clock (Suc (Suc k + j))
              \<and> (\<exists>st. task_get (tid (Suc k + j)) (Suc k + j) = Inr st \<and> task_status st = ''failure''
                     \<and> task_message st = IMAGE_ERROR_396)
              \<and> task_create (Suc (Suc k + j)) = Inr (tid (Suc (Suc k + j)))"
  proof -
    fix j assume "j < n"
    then have "Suc j < Suc n" by simp
    from Suc.prems(1) [OF this] show "\<not> timed_out timeout clock (Suc (Suc k + j))
              \<and> (\<exists>st. task_get (tid (Suc k + j)) (Suc k + j) = Inr st \<and> task_status st = ''failure''
                     \<and> task_message st = IMAGE_ERROR_396)
              \<and> task_create (Suc (Suc k + j)) = Inr (tid (Suc (Suc k + j)))"
      by simp
  qed
  have s1: "glance_task ?s1 = tid (Suc k)" "found_image_id ?s1 = None" "submissions ?s1 = Suc (Suc k)"
    using Suc.prems(3,4) by simp_all
  from Suc.IH [OF rest s1, of "tr @ [Task ''ImageTaskGet'', Task ''ImageTaskCreate'', Invalidate ''list_images'']"]
  obtain s' where
    "iterate_timeout timeout msg clock
         (upload_image_wait_body task_create task_get gi uip giu) (Suc k) ?s1
         (tr @ [Task ''ImageTaskGet'', Task ''ImageTaskCreate'', Invalidate ''list_images''])
      = iterate_timeout timeout msg clock
         (upload_image_wait_body task_create task_get gi uip giu) (Suc k + n) s'
         ((tr @ [Task ''ImageTaskGet'', Task ''ImageTaskCreate'', Invalidate ''list_images''])
           @ concat (replicate n [Task ''ImageTaskGet'', Task ''ImageTaskCreate'',
                                  Invalidate ''list_images'']))"
    and "glance_task s' = tid (Suc k + n)" "found_image_id s' = None"
      "submissions s' = Suc (Suc k + n)"
    by blast
  then show ?case
    using step by (intro exI [of _ s']) simp
qed

text \<open>
  Claim C7, as the code has it. In the wait loop of \<^verbatim>\<open>_upload_image_task\<close>, every poll that
  reports \<^verbatim>\<open>'failure'\<close> with the message \<^verbatim>\<open>IMAGE_ERROR_396\<close> is followed by exactly one new
  \<^verbatim>\<open>ImageTaskCreate\<close> (and the invalidation of the image list), and polling goes on with the
  new task: after \<open>n\<close> such polls in a row, \<open>n\<close> resubmissions have been made, for any \<open>n\<close>,
  and the failure has not been treated as terminal. A poll that reports \<^verbatim>\<open>'failure'\<close> with
  any other message raises \<^verbatim>\<open>OpenStackCloudException\<close> at once, with no resubmission after
  that poll. The retries end only there, at a success, or at the timeout.
\<close>

theorem upload_image_task_retries:
  assumes "create_object = Inr u"
    and "\<And>j. j \<le> n \<Longrightarrow> task_create j = Inr (tid j)"
    and "\<And>j. j < n \<Longrightarrow> \<not> timed_out timeout clock (Suc j)
            \<and> (\<exists>st. task_get (tid j) j = Inr st \<and> task_status st = ''failure''
                   \<and> task_message st = IMAGE_ERROR_396)"
  shows
    "(\<not> timed_out timeout clock (Suc n) \<and> task_get (tid n) n = Inr st
        \<and> task_status st = ''failure'' \<and> task_message st \<noteq> IMAGE_ERROR_396 \<longrightarrow>
      u_upload_image_task create_object gibn task_create task_get gi uip giu clock
          (Some current_image) True timeout
        = Some (Inl (OpenStackCloudException (''Image creation failed: '' @ task_message st)),
                [Call ''create_object'', Task ''ImageTaskCreate'', Invalidate ''list_images'']
                  @ concat (replicate n [Task ''ImageTaskGet'', Task ''ImageTaskCreate'',
                                         Invalidate ''list_images''])
                  @ [Task ''ImageTaskGet'']))
     \<and> (timed_out timeout clock (Suc n) \<longrightarrow>
      u_upload_image_task create_object gibn task_create task_get gi uip giu clock
          (Some current_image) True timeout
        = Some (Inl (OpenStackCloudTimeout ''Timeout waiting for the image to import.''),
                [Call ''create_object'', Task ''ImageTaskCreate'', Invalidate ''list_images'']
                  @ concat (replicate n [Task ''ImageTaskGet'', Task ''ImageTaskCreate'',
                                         Invalidate ''list_images''])))"
proof -
  let ?body = "upload_image_wait_body task_create task_get gi uip giu"
  let ?s0 = "\<lparr>glance_task = tid 0, found_image_id = None, status = None, submissions = 1\<rparr>"
  let ?tr0 = "[Call ''create_object'', Task ''ImageTaskCreate'', Invalidate ''list_images'']"
  let ?msg = "''Timeout waiting for the image to import.''"
  have t0: "task_create 0 = Inr (tid 0)" using assms(2) [of 0] by simp
  have up: "u_upload_image_task create_object gibn task_create task_get gi uip giu clock
          (Some current_image) True timeout
      = (case iterate_timeout timeout ?msg clock ?body 0 ?s0 ?tr0 of
           None \<Rightarrow> None
         | Some (Inl e, tr) \<Rightarrow> Some (Inl e, tr)
         | Some (Inr (Inl s), tr) \<Rightarrow> Some (Inr NoResult, tr)
         | Some (Inr (Inr r), tr) \<Rightarrow> Some (Inr r, tr))"
    using assms(1) t0 by (simp add: u_upload_image_task_def)
  have hyp: "\<And>j. j < n \<Longrightarrow> \<not> timed_out timeout clock (Suc (0 + j))
              \<and> (\<exists>st. task_get (tid (0 + j)) (0 + j) = Inr st \<and> task_status st = ''failure''
                     \<and> task_message st = IMAGE_ERROR_396)
              \<and> task_create (Suc (0 + j)) = Inr (tid (Suc (0 + j)))"
    using assms(2,3) by (simp add: Suc_leI)
  from upload_skip_396 [of n timeout clock 0 task_get tid task_create ?s0 ?msg gi uip giu ?tr0, OF hyp]
  obtain s' where skip: "iterate_timeout timeout ?msg clock ?body 0 ?s0 ?tr0
         = iterate_timeout timeout ?msg clock ?body n s'
             (?tr0 @ concat (replicate n [Task ''ImageTaskGet'', Task ''ImageTaskCreate'',
                                          Invalidate ''list_images'']))"
    and s': "glance_task s' = tid n" "found_image_id s' = None" "submissions s' = Suc n"
    by auto
  show ?thesis
  proof (intro conjI impI; (elim conjE)?)
    assume nt: "\<not> timed_out timeout clock (Suc n)" and tg: "task_get (tid n) n = Inr st"
      and f: "task_status st = ''failure''" "task_message st \<noteq> IMAGE_ERROR_396"
    have body: "?body n s' = (Raise (OpenStackCloudException
          (''Image creation failed: '' @ task_message st)), [Task ''ImageTaskGet''])"
      using upload_body_other_failure [of s' task_get n st task_create gi uip giu] s' tg f by simp
    have "iterate_timeout timeout ?msg clock ?body n s'
             (?tr0 @ concat (replicate n [Task ''ImageTaskGet'', Task ''ImageTaskCreate'',
                                          Invalidate ''list_images'']))
       = Some (Inl (OpenStackCloudException (''Image creation failed: '' @ task_message st)),
               (?tr0 @ concat (replicate n [Task ''ImageTaskGet'', Task ''ImageTaskCreate'',
                                          Invalidate ''list_images''])) @ [Task ''ImageTaskGet''])"
      by (subst iterate_timeout.simps) (simp add: nt body)
    then show "u_upload_image_task create_object gibn task_create task_get gi uip giu clock
          (Some current_image) True timeout
        = Some (Inl (OpenStackCloudException (''Image creation failed: '' @ task_message st)),
                ?tr0 @ concat (replicate n [Task ''ImageTaskGet'', Task ''ImageTaskCreate'',
                                         Invalidate ''list_images''])
                  @ [Task ''ImageTaskGet''])"
      unfolding up skip by simp
  next
    assume to: "timed_out timeout clock (Suc n)"
    have "iterate_timeout timeout ?msg clock ?body n s'
             (?tr0 @ concat (replicate n [Task ''ImageTaskGet'', Task ''ImageTaskCreate'',
                                          Invalidate ''list_images'']))
       = Some (Inl (OpenStackCloudTimeout ?msg),
               ?tr0 @ concat (replicate n [Task ''ImageTaskGet'', Task ''ImageTaskCreate'',
                                          Invalidate ''list_images'']))"
      by (subst iterate_timeout.simps) (simp add: to)
    then show "u_upload_image_task create_object gibn task_create task_get gi uip giu clock
          (Some current_image) True timeout
        = Some (Inl (OpenStackCloudTimeout ?msg),
                ?tr0 @ concat (replicate n [Task ''ImageTaskGet'', Task ''ImageTaskCreate'',
                                         Invalidate ''list_images'']))"
      unfolding up skip by simp
  qed
qed

text \<open>
  Two polls that report the failure 396, then a poll that reports the failure "disk full":
  three tasks submitted in all (one before the loop, one after each 396), and the exception
  right after the third poll.
\<close>

theorem upload_image_task_retries_witness:
  "u_upload_image_task (Inr ()) (Inr None)
     (\<lambda>n. Inr (if n = 0 then ''t0'' else if n = 1 then ''t1'' else ''t2''))
     (\<lambda>t k. if t = ''t2''
        then Inr \<lparr>task_status = ''failure'', task_message = ''disk full'', task_result_image_id = []\<rparr>
        else Inr \<lparr>task_status = ''failure'', task_message = IMAGE_ERROR_396,
                  task_result_image_id = []\<rparr>)
     (\<lambda>k i. Inr None) (\<lambda>i. Inr True) (\<lambda>i. Inr None) (\<lambda>k. 2 * real k)
     (Some \<lparr>image_id = ''old'', image_status = ''active''\<rparr>) True (Some 3600)
   = Some (Inl (OpenStackCloudException ''Image creation failed: disk full''),
           [Call ''create_object'', Task ''ImageTaskCreate'', Invalidate ''list_images'',
            Task ''ImageTaskGet'', Task ''ImageTaskCreate'', Invalidate ''list_images'',
            Task ''ImageTaskGet'', Task ''ImageTaskCreate'', Invalidate ''list_images'',
            Task ''ImageTaskGet''])"
proof -
  let ?tid = "\<lambda>n::nat. if n = 0 then ''t0'' else if n = 1 then ''t1'' else ''t2''"
  let ?tc = "\<lambda>n::nat. (Inr (?tid n) :: error + string)"
  let ?tg = "\<lambda>(t::string) (k::nat). if t = ''t2''
        then (Inr \<lparr>task_status = ''failure'', task_message = ''disk full'',
                   task_result_image_id = []\<rparr> :: error + task_report)
        else Inr \<lparr>task_status = ''failure'', task_message = IMAGE_ERROR_396,
                  task_result_image_id = []\<rparr>"
  have h1: "\<And>j. j \<le> 2 \<Longrightarrow> ?tc j = Inr (?tid j)" by simp
  have h2: "\<And>j. j < 2 \<Longrightarrow> \<not> timed_out (Some 3600) (\<lambda>k. 2 * real k) (Suc j)
            \<and> (\<exists>st. ?tg (?tid j) j = Inr st \<and> task_status st = ''failure''
                   \<and> task_message st = IMAGE_ERROR_396)"
  proof -
    fix j :: nat assume "j < 2"
    then have "j = 0 \<or> j = 1" by auto
    then show "\<not> timed_out (Some 3600) (\<lambda>k. 2 * real k) (Suc j)
            \<and> (\<exists>st. ?tg (?tid j) j = Inr st \<and> task_status st = ''failure''
                   \<and> task_message st = IMAGE_ERROR_396)"
      by (auto simp: timed_out_def)
  qed
  have ne: "''disk full'' \<noteq> IMAGE_ERROR_396" by (simp add: IMAGE_ERROR_396_def)
  note t = upload_image_task_retries
    [where n = 2 and create_object = "Inr ()" and u = "()" and task_create = ?tc and tid = ?tid
       and task_get = ?tg and timeout = "Some 3600" and clock = "\<lambda>k. 2 * real k"
       and st = "\<lparr>task_status = ''failure'', task_message = ''disk full'',
                  task_result_image_id = []\<rparr>"
       and gibn = "Inr None" and gi = "\<lambda>k i. Inr None" and uip = "\<lambda>i. Inr True"
       and giu = "\<lambda>i. Inr None"
       and current_image = "\<lparr>image_id = ''old'', image_status = ''active''\<rparr>",
     OF refl h1 h2]
  show ?thesis
    using t ne by (simp add: timed_out_def numeral_2_eq_2)
qed

text \<open>
  Claim C7 as stated allows one resubmission before a failure is terminal. Here the first
  task fails with 396 and is resubmitted, the second task fails with 396 as well and is
  resubmitted again, and the third task succeeds: the verb returns the image after two
  automatic resubmissions, and the second failure was not terminal.
\<close>

theorem upload_image_task_retries_counterexample:
  "u_upload_image_task (Inr ()) (Inr None)
     (\<lambda>n. Inr (if n = 0 then ''t0'' else if n = 1 then ''t1'' else ''t2''))
     (\<lambda>t k. if t = ''t2''
        then Inr \<lparr>task_status = ''success'', task_message = [], task_result_image_id = ''i1''\<rparr>
        else Inr \<lparr>task_status = ''failure'', task_message = IMAGE_ERROR_396,
                  task_result_image_id = []\<rparr>)
     (\<lambda>k i. Inr (Some \<lparr>image_id = i, image_status = ''active''\<rparr>)) (\<lambda>i. Inr True)
     (\<lambda>i. Inr (Some \<lparr>image_id = i, image_status = ''active''\<rparr>)) (\<lambda>k. 2 * real k)
     (Some \<lparr>image_id = ''old'', image_status = ''active''\<rparr>) True (Some 3600)
   = Some (Inr (UploadedImage (Some \<lparr>image_id = ''i1'', image_status = ''active''\<rparr>)),
           [Call ''create_object'', Task ''ImageTaskCreate'', Invalidate ''list_images'',
            Task ''ImageTaskGet'', Task ''ImageTaskCreate'', Invalidate ''list_images'',
            Task ''ImageTaskGet'', Task ''ImageTaskCreate'', Invalidate ''list_images'',
            Task ''ImageTaskGet'', Call ''get_image'', Call ''update_image_properties'',
            Call ''get_image''])"
  by (simp add: u_upload_image_task_def upload_image_wait_body_def upload_image_poll_def
      upload_image_success_def upload_image_failure_def iterate_timeout.simps timed_out_def)

section \<open>Properties of the cache layer\<close>

text \<open>
  What the three predicates compute: every member's status is in the terminal set of its
  kind. For stacks the terminal statuses are those that contain \<^verbatim>\<open>_COMPLETE\<close> or \<^verbatim>\<open>_FAILED\<close>.
\<close>

lemma u_no_pending_volumes_iff:
  "u_no_pending_volumes vs \<longleftrightarrow>
     (\<forall>v \<in> set vs. volume_status v \<in> {''available'', ''error'', ''in-use''})"
  by (induction vs) auto

lemma u_no_pending_images_iff:
  "u_no_pending_images imgs \<longleftrightarrow>
     (\<forall>i \<in> set imgs. image_status i \<in> {''active'', ''deleted'', ''killed''})"
  by (induction imgs) auto

lemma u_no_pending_stacks_iff:
  "u_no_pending_stacks ss \<longleftrightarrow>
     (\<forall>s \<in> set ss. sublist ''_COMPLETE'' (stack_status s) \<or> sublist ''_FAILED'' (stack_status s))"
  by (induction ss) auto

text \<open>
  The cache layer: an entry that is not live stays so; a read without a live entry runs the
  body and stores its value exactly when caching is on and the predicate accepts it; a read
  with a live entry returns it with no event.
\<close>

lemma live_entry_later:
  "live_entry c t1 k = None \<Longrightarrow> t1 \<le> t2 \<Longrightarrow> live_entry c t2 k = None"
  by (auto simp: live_entry_def split: if_splits option.splits)

lemma cached_read_miss:
  "live_entry c t k = None \<Longrightarrow>
   cached_read t k steady (r, evs) c =
     (r, (case r of Inl e \<Rightarrow> c
          | Inr v \<Rightarrow> if caching c \<and> steady v
              then c\<lparr>entries := (entries c)(k \<mapsto> \<lparr>cached_value = v, expiration = t + expiration_time c\<rparr>)\<rparr>
              else c), evs)"
  by (simp add: cached_read_def split: sum.splits)

lemma cached_read_hit:
  "live_entry c t k = Some v \<Longrightarrow> cached_read t k steady cmp c = (Inr v, c, [])"
  by (simp add: cached_read_def)

lemma cached_read_fetched:
  assumes "cached_read t k steady (r, evs) c = (r1, c1, ev1)" and "ev1 \<noteq> []"
  shows "live_entry c t k = None"
  using assms by (cases "live_entry c t k") (simp_all add: cached_read_def)

lemma gating_generic:
  assumes read: "cached_read t1 k steady (r, evs) c = (Inr xs, c1, ev1)" and ne: "ev1 \<noteq> []"
  shows "(\<not> steady xs \<longrightarrow> c1 = c \<and>
            (t1 \<le> t2 \<longrightarrow> fst (cached_read t2 k steady (r2, evs2) c1) = r2
               \<and> snd (snd (cached_read t2 k steady (r2, evs2) c1)) = evs2))
       \<and> (steady xs \<and> caching c \<and> t2 < t1 + expiration_time c \<longrightarrow>
            cached_read t2 k steady (r2, evs2) c1 = (Inr xs, c1, []))"
proof -
  have miss: "live_entry c t1 k = None" by (rule cached_read_fetched [OF read ne])
  from read have r: "r = Inr xs"
    and c1: "c1 = (if caching c \<and> steady xs
              then c\<lparr>entries := (entries c)(k \<mapsto> \<lparr>cached_value = xs, expiration = t1 + expiration_time c\<rparr>)\<rparr>
              else c)"
    unfolding cached_read_miss [OF miss] by (auto split: sum.splits)
  show ?thesis
  proof (intro conjI impI; (elim conjE)?)
    assume "\<not> steady xs"
    then show "c1 = c" using c1 by simp
  next
    assume ns: "\<not> steady xs" and le: "t1 \<le> t2"
    have "c1 = c" using c1 ns by simp
    with live_entry_later [OF miss le] have "live_entry c1 t2 k = None" by simp
    from cached_read_miss [OF this]
    show "fst (cached_read t2 k steady (r2, evs2) c1) = r2"
      and "snd (snd (cached_read t2 k steady (r2, evs2) c1)) = evs2"
      by simp_all
  next
    assume a: "steady xs" "caching c" "t2 < t1 + expiration_time c"
    then have "live_entry c1 t2 k = Some xs"
      using c1 by (simp add: live_entry_def)
    then show "cached_read t2 k steady (r2, evs2) c1 = (Inr xs, c1, [])"
      by (rule cached_read_hit)
  qed
qed

text \<open>The keys of the three verbs.\<close>

lemma list_volumes_key:
  "generate_key self None ''list_volumes'' []
      (case ca of None \<Rightarrow> [] | Some b \<Rightarrow> [(''cache'', PBool b)])
   = Inr (name self @ ''_list_volumes__'')"
  by (cases ca) (simp_all add: generate_key_def name_key_def kwargs_key_def)

lemma list_stacks_key:
  "generate_key self None ''list_stacks'' [] [] = Inr (name self @ ''_list_stacks__'')"
  by (simp add: generate_key_def name_key_def kwargs_key_def)

lemma list_images_key:
  "\<exists>k. generate_key self None ''list_images'' []
      (case fd of None \<Rightarrow> [] | Some b \<Rightarrow> [(''filter_deleted'', PBool b)]) = Inr k"
  by (simp add: generate_key_def)

lemma list_volumes_gating:
  assumes read: "list_volumes self t1 resp ca c = (Inr vs, c1, ev1)" and ne: "ev1 \<noteq> []"
  shows "((\<exists>v \<in> set vs. volume_status v \<notin> {''available'', ''error'', ''in-use''}) \<longrightarrow>
            c1 = c \<and>
            (t1 \<le> t2 \<longrightarrow>
               fst (list_volumes self t2 resp2 ca2 c1)
                 = shade_exceptions ''Error fetching volume list'' resp2
               \<and> Task ''VolumeList'' \<in> set (snd (snd (list_volumes self t2 resp2 ca2 c1)))))
       \<and> ((\<forall>v \<in> set vs. volume_status v \<in> {''available'', ''error'', ''in-use''})
            \<and> caching c \<and> t2 < t1 + expiration_time c \<longrightarrow>
            list_volumes self t2 resp2 ca2 c1 = (Inr vs, c1, []))"
proof -
  let ?k = "name self @ ''_list_volumes__''"
  have lv: "list_volumes self t r a d
      = cached_read t ?k u_no_pending_volumes (list_volumes_body a r) d" for t r a d
    by (simp add: list_volumes_def cache_on_arguments_def list_volumes_key)
  obtain r0 evs0 where b1: "list_volumes_body ca resp = (r0, evs0)"
    by (cases "list_volumes_body ca resp")
  obtain evs2 where b2: "list_volumes_body ca2 resp2
      = (shade_exceptions ''Error fetching volume list'' resp2, evs2)"
    and t2: "Task ''VolumeList'' \<in> set evs2"
    by (simp add: list_volumes_body_def)
  note g = gating_generic [OF read [unfolded lv b1] ne, of t2
      "shade_exceptions ''Error fetching volume list'' resp2" evs2]
  show ?thesis
    using g t2 unfolding lv b2 u_no_pending_volumes_iff
    by auto
qed

lemma list_stacks_gating:
  assumes read: "list_stacks self t1 resp c = (Inr ss, c1, ev1)" and ne: "ev1 \<noteq> []"
  shows "((\<exists>s \<in> set ss. \<not> sublist ''_COMPLETE'' (stack_status s)
                         \<and> \<not> sublist ''_FAILED'' (stack_status s)) \<longrightarrow>
            c1 = c \<and>
            (t1 \<le> t2 \<longrightarrow>
               fst (list_stacks self t2 resp2 c1)
                 = shade_exceptions ''Error fetching stack list'' resp2
               \<and> Task ''StackList'' \<in> set (snd (snd (list_stacks self t2 resp2 c1)))))
       \<and> ((\<forall>s \<in> set ss. sublist ''_COMPLETE'' (stack_status s)
                         \<or> sublist ''_FAILED'' (stack_status s))
            \<and> caching c \<and> t2 < t1 + expiration_time c \<longrightarrow>
            list_stacks self t2 resp2 c1 = (Inr ss, c1, []))"
proof -
  let ?k = "name self @ ''_list_stacks__''"
  have lv: "list_stacks self t r d
      = cached_read t ?k u_no_pending_stacks (list_stacks_body r) d" for t r d
    by (simp add: list_stacks_def cache_on_arguments_def list_stacks_key)
  obtain r0 evs0 where b1: "list_stacks_body resp = (r0, evs0)"
    by (cases "list_stacks_body resp")
  have b2: "list_stacks_body resp2
      = (shade_exceptions ''Error fetching stack list'' resp2, [Task ''StackList''])"
    by (simp add: list_stacks_body_def)
  note g = gating_generic [OF read [unfolded lv b1] ne, of t2
      "shade_exceptions ''Error fetching stack list'' resp2" "[Task ''StackList'']"]
  show ?thesis
    using g unfolding lv b2 u_no_pending_stacks_iff
    by auto
qed

lemma list_images_body_events:
  "Task ''GlanceImageList'' \<in> set (snd (list_images_body fd glance nova))"
  by (auto simp: list_images_body_def split: sum.splits prod.splits)

lemma list_images_gating:
  assumes read: "list_images self t1 glance nova fd c = (Inr imgs, c1, ev1)" and ne: "ev1 \<noteq> []"
  shows "((\<exists>i \<in> set imgs. image_status i \<notin> {''active'', ''deleted'', ''killed''}) \<longrightarrow>
            c1 = c \<and>
            (t1 \<le> t2 \<longrightarrow>
               fst (list_images self t2 glance2 nova2 fd c1)
                 = fst (list_images_body (case fd of None \<Rightarrow> True | Some b \<Rightarrow> b) glance2 nova2)
               \<and> Task ''GlanceImageList''
                   \<in> set (snd (snd (list_images self t2 glance2 nova2 fd c1)))))
       \<and> ((\<forall>i \<in> set imgs. image_status i \<in> {''active'', ''deleted'', ''killed''})
            \<and> caching c \<and> t2 < t1 + expiration_time c \<longrightarrow>
            list_images self t2 glance2 nova2 fd c1 = (Inr imgs, c1, []))"
proof -
  obtain k where key: "generate_key self None ''list_images'' []
      (case fd of None \<Rightarrow> [] | Some b \<Rightarrow> [(''filter_deleted'', PBool b)]) = Inr k"
    using list_images_key by blast
  let ?fd = "case fd of None \<Rightarrow> True | Some b \<Rightarrow> b"
  have lv: "list_images self t g n fd d
      = cached_read t k u_no_pending_images (list_images_body ?fd g n) d" for t g n d
    by (simp add: list_images_def cache_on_arguments_def key)
  obtain r0 evs0 where b1: "list_images_body ?fd glance nova = (r0, evs0)"
    by (cases "list_images_body ?fd glance nova")
  obtain r2 evs2 where b2: "list_images_body ?fd glance2 nova2 = (r2, evs2)"
    by (cases "list_images_body ?fd glance2 nova2")
  have t2: "Task ''GlanceImageList'' \<in> set evs2"
    using list_images_body_events [of ?fd glance2 nova2] b2 by simp
  note g = gating_generic [OF read [unfolded lv b1] ne, of t2 r2 evs2]
  show ?thesis
    using g t2 unfolding lv b2 u_no_pending_images_iff
    by auto
qed

text \<open>
  Claim C1, for \<^verbatim>\<open>list_volumes\<close>, \<^verbatim>\<open>list_images\<close> and \<^verbatim>\<open>list_stacks\<close>. Take a read at time \<open>t\<close>
  that fetched from the backend (it has events) and returned a collection. If some member's
  status is outside the terminal set of the kind, the cache after the read is the cache
  before it, no entry stored, and any read at a later time \<open>t'\<close> runs the body again: it
  returns what the body gives on the backend's new answer, and the list task is among its
  events. If every member's status is in the terminal set, and caching is enabled, then any
  read before \<open>t + expiration_time\<close> returns the same collection from the cache, with no
  event and the cache unchanged.
\<close>

theorem staleness_gating:
  "(list_volumes self t resp ca cv = (Inr vs, cv', evs) \<and> evs \<noteq> [] \<longrightarrow>
      ((\<exists>v \<in> set vs. volume_status v \<notin> {''available'', ''error'', ''in-use''}) \<longrightarrow>
         cv' = cv \<and>
         (t \<le> t' \<longrightarrow>
            fst (list_volumes self t' resp' ca' cv')
              = shade_exceptions ''Error fetching volume list'' resp'
            \<and> Task ''VolumeList'' \<in> set (snd (snd (list_volumes self t' resp' ca' cv')))))
      \<and> ((\<forall>v \<in> set vs. volume_status v \<in> {''available'', ''error'', ''in-use''})
           \<and> caching cv \<and> t' < t + expiration_time cv \<longrightarrow>
           list_volumes self t' resp' ca' cv' = (Inr vs, cv', [])))
   \<and> (list_images self t glance nova fd ci = (Inr imgs, ci', evs) \<and> evs \<noteq> [] \<longrightarrow>
      ((\<exists>i \<in> set imgs. image_status i \<notin> {''active'', ''deleted'', ''killed''}) \<longrightarrow>
         ci' = ci \<and>
         (t \<le> t' \<longrightarrow>
            fst (list_images self t' glance' nova' fd ci')
              = fst (list_images_body (case fd of None \<Rightarrow> True | Some b \<Rightarrow> b) glance' nova')
            \<and> Task ''GlanceImageList''
                \<in> set (snd (snd (list_images self t' glance' nova' fd ci')))))
      \<and> ((\<forall>i \<in> set imgs. image_status i \<in> {''active'', ''deleted'', ''killed''})
           \<and> caching ci \<and> t' < t + expiration_time ci \<longrightarrow>
           list_images self t' glance' nova' fd ci' = (Inr imgs, ci', [])))
   \<and> (list_stacks self t sresp cs = (Inr stks, cs', evs) \<and> evs \<noteq> [] \<longrightarrow>
      ((\<exists>s \<in> set stks. \<not> sublist ''_COMPLETE'' (stack_status s)
                         \<and> \<not> sublist ''_FAILED'' (stack_status s)) \<longrightarrow>
         cs' = cs \<and>
         (t \<le> t' \<longrightarrow>
            fst (list_stacks self t' sresp' cs')
              = shade_exceptions ''Error fetching stack list'' sresp'
            \<and> Task ''StackList'' \<in> set (snd (snd (list_stacks self t' sresp' cs')))))
      \<and> ((\<forall>s \<in> set stks. sublist ''_COMPLETE'' (stack_status s)
                         \<or> sublist ''_FAILED'' (stack_status s))
           \<and> caching cs \<and> t' < t + expiration_time cs \<longrightarrow>
           list_stacks self t' sresp' cs' = (Inr stks, cs', [])))"
proof (intro conjI)
  show "list_volumes self t resp ca cv = (Inr vs, cv', evs) \<and> evs \<noteq> [] \<longrightarrow>
      ((\<exists>v \<in> set vs. volume_status v \<notin> {''available'', ''error'', ''in-use''}) \<longrightarrow>
         cv' = cv \<and>
         (t \<le> t' \<longrightarrow>
            fst (list_volumes self t' resp' ca' cv')
              = shade_exceptions ''Error fetching volume list'' resp'
            \<and> Task ''VolumeList'' \<in> set (snd (snd (list_volumes self t' resp' ca' cv')))))
      \<and> ((\<forall>v \<in> set vs. volume_status v \<in> {''available'', ''error'', ''in-use''})
           \<and> caching cv \<and> t' < t + expiration_time cv \<longrightarrow>
           list_volumes self t' resp' ca' cv' = (Inr vs, cv', []))"
    using list_volumes_gating [of self t resp ca cv vs cv' evs t' resp' ca'] by blast
  show "list_images self t glance nova fd ci = (Inr imgs, ci', evs) \<and> evs \<noteq> [] \<longrightarrow>
      ((\<exists>i \<in> set imgs. image_status i \<notin> {''active'', ''deleted'', ''killed''}) \<longrightarrow>
         ci' = ci \<and>
         (t \<le> t' \<longrightarrow>
            fst (list_images self t' glance' nova' fd ci')
              = fst (list_images_body (case fd of None \<Rightarrow> True | Some b \<Rightarrow> b) glance' nova')
            \<and> Task ''GlanceImageList''
                \<in> set (snd (snd (list_images self t' glance' nova' fd ci')))))
      \<and> ((\<forall>i \<in> set imgs. image_status i \<in> {''active'', ''deleted'', ''killed''})
           \<and> caching ci \<and> t' < t + expiration_time ci \<longrightarrow>
           list_images self t' glance' nova' fd ci' = (Inr imgs, ci', []))"
    using list_images_gating [of self t glance nova fd ci imgs ci' evs t' glance' nova'] by blast
  show "list_stacks self t sresp cs = (Inr stks, cs', evs) \<and> evs \<noteq> [] \<longrightarrow>
      ((\<exists>s \<in> set stks. \<not> sublist ''_COMPLETE'' (stack_status s)
                         \<and> \<not> sublist ''_FAILED'' (stack_status s)) \<longrightarrow>
         cs' = cs \<and>
         (t \<le> t' \<longrightarrow>
            fst (list_stacks self t' sresp' cs')
              = shade_exceptions ''Error fetching stack list'' sresp'
            \<and> Task ''StackList'' \<in> set (snd (snd (list_stacks self t' sresp' cs')))))
      \<and> ((\<forall>s \<in> set stks. sublist ''_COMPLETE'' (stack_status s)
                         \<or> sublist ''_FAILED'' (stack_status s))
           \<and> caching cs \<and> t' < t + expiration_time cs \<longrightarrow>
           list_stacks self t' sresp' cs' = (Inr stks, cs', []))"
    using list_stacks_gating [of self t sresp cs stks cs' evs t' sresp'] by blast
qed

text \<open>
  On a cold cache with a time to live of 60 seconds: a volume list with a volume in
  \<^verbatim>\<open>'creating'\<close>, read at 100, is not stored, and the read at 110 fetches again; a list with the
  volume \<^verbatim>\<open>'available'\<close> is stored, and the read at 110 is served from the entry; an image
  list with an image in \<^verbatim>\<open>'saving'\<close> is fetched again at 110; a stack list with a stack in
  \<^verbatim>\<open>CREATE_COMPLETE\<close> is served from the entry at 110.
\<close>

theorem staleness_gating_witness:
  "list_volumes \<lparr>name = ''devstack'', region_name = ''RegionOne''\<rparr> 100
     (Inr [\<lparr>volume_id = ''v1'', volume_status = ''creating''\<rparr>]) None
     \<lparr>caching = True, expiration_time = 60, entries = Map.empty\<rparr>
     = (Inr [\<lparr>volume_id = ''v1'', volume_status = ''creating''\<rparr>],
        \<lparr>caching = True, expiration_time = 60, entries = Map.empty\<rparr>, [Task ''VolumeList''])
   \<and> Task ''VolumeList'' \<in> set (snd (snd
       (list_volumes \<lparr>name = ''devstack'', region_name = ''RegionOne''\<rparr> 110
          (Inr [\<lparr>volume_id = ''v1'', volume_status = ''available''\<rparr>]) None
          \<lparr>caching = True, expiration_time = 60, entries = Map.empty\<rparr>)))
   \<and> list_volumes \<lparr>name = ''devstack'', region_name = ''RegionOne''\<rparr> 110
       (Inr []) (Some False)
       \<lparr>caching = True, expiration_time = 60,
        entries = [''devstack_list_volumes__'' \<mapsto>
          \<lparr>cached_value = [\<lparr>volume_id = ''v1'', volume_status = ''available''\<rparr>],
           expiration = 160\<rparr>]\<rparr>
     = (Inr [\<lparr>volume_id = ''v1'', volume_status = ''available''\<rparr>],
        \<lparr>caching = True, expiration_time = 60,
         entries = [''devstack_list_volumes__'' \<mapsto>
           \<lparr>cached_value = [\<lparr>volume_id = ''v1'', volume_status = ''available''\<rparr>],
            expiration = 160\<rparr>]\<rparr>, [])
   \<and> Task ''GlanceImageList'' \<in> set (snd (snd
       (list_images \<lparr>name = ''devstack'', region_name = ''RegionOne''\<rparr> 110
          (Inr []) (Inr []) None
          \<lparr>caching = True, expiration_time = 60, entries = Map.empty\<rparr>)))
   \<and> list_stacks \<lparr>name = ''devstack'', region_name = ''RegionOne''\<rparr> 110 (Inr [])
       \<lparr>caching = True, expiration_time = 60,
        entries = [''devstack_list_stacks__'' \<mapsto>
          \<lparr>cached_value = [\<lparr>stack_id = ''s1'', stack_status = ''CREATE_COMPLETE''\<rparr>],
           expiration = 160\<rparr>]\<rparr>
     = (Inr [\<lparr>stack_id = ''s1'', stack_status = ''CREATE_COMPLETE''\<rparr>],
        \<lparr>caching = True, expiration_time = 60,
         entries = [''devstack_list_stacks__'' \<mapsto>
           \<lparr>cached_value = [\<lparr>stack_id = ''s1'', stack_status = ''CREATE_COMPLETE''\<rparr>],
            expiration = 160\<rparr>]\<rparr>, [])"
proof -
  let ?dev = "\<lparr>name = ''devstack'', region_name = ''RegionOne''\<rparr>"
  let ?c0 = "\<lparr>caching = True, expiration_time = 60, entries = Map.empty\<rparr> :: volume list cache"
  let ?i0 = "\<lparr>caching = True, expiration_time = 60, entries = Map.empty\<rparr> :: image list cache"
  let ?s0 = "\<lparr>caching = True, expiration_time = 60, entries = Map.empty\<rparr> :: stack list cache"
  let ?creating = "\<lparr>volume_id = ''v1'', volume_status = ''creating''\<rparr>"
  let ?available = "\<lparr>volume_id = ''v1'', volume_status = ''available''\<rparr>"
  let ?saving = "\<lparr>image_id = ''i1'', image_status = ''saving''\<rparr>"
  let ?complete = "\<lparr>stack_id = ''s1'', stack_status = ''CREATE_COMPLETE''\<rparr>"
  let ?cv = "\<lparr>caching = True, expiration_time = 60,
        entries = [''devstack_list_volumes__'' \<mapsto>
          \<lparr>cached_value = [?available], expiration = 160\<rparr>]\<rparr>"
  let ?cs = "\<lparr>caching = True, expiration_time = 60,
        entries = [''devstack_list_stacks__'' \<mapsto>
          \<lparr>cached_value = [?complete], expiration = 160\<rparr>]\<rparr>"
  have v1: "list_volumes ?dev 100 (Inr [?creating]) None ?c0
      = (Inr [?creating], ?c0, [Task ''VolumeList''])"
    by (simp add: list_volumes_def cache_on_arguments_def generate_key_def name_key_def
        kwargs_key_def cached_read_def live_entry_def list_volumes_body_def shade_exceptions_def)
  have v2: "list_volumes ?dev 100 (Inr [?available]) None ?c0
      = (Inr [?available], ?cv, [Task ''VolumeList''])"
    by (simp add: list_volumes_def cache_on_arguments_def generate_key_def name_key_def
        kwargs_key_def cached_read_def live_entry_def list_volumes_body_def shade_exceptions_def)
  have i1: "list_images ?dev 100 (Inr [?saving]) (Inr []) None ?i0
      = (Inr [?saving], ?i0, [Task ''GlanceImageList''])"
    by (simp add: list_images_def cache_on_arguments_def generate_key_def name_key_def
        kwargs_key_def cached_read_def live_entry_def list_images_body_def)
  have sub: "sublist ''_COMPLETE'' ''CREATE_COMPLETE''"
    by (simp add: sublist_Cons_right)
  have s1: "list_stacks ?dev 100 (Inr [?complete]) ?s0
      = (Inr [?complete], ?cs, [Task ''StackList''])"
    by (simp add: list_stacks_def cache_on_arguments_def generate_key_def name_key_def
        kwargs_key_def cached_read_def live_entry_def list_stacks_body_def shade_exceptions_def sub)
  note a = staleness_gating [where self = ?dev and t = 100 and resp = "Inr [?creating]"
      and ca = None and cv = ?c0 and vs = "[?creating]" and cv' = ?c0
      and evs = "[Task ''VolumeList'']"
      and t' = 110 and resp' = "Inr [?available]" and ca' = None, THEN conjunct1]
  note b = staleness_gating [where self = ?dev and t = 100 and resp = "Inr [?available]"
      and ca = None and cv = ?c0 and vs = "[?available]" and cv' = ?cv
      and evs = "[Task ''VolumeList'']"
      and t' = 110 and resp' = "Inr []" and ca' = "Some False", THEN conjunct1]
  note c = staleness_gating [where self = ?dev and t = 100 and glance = "Inr [?saving]"
      and nova = "Inr []" and fd = None and ci = ?i0 and imgs = "[?saving]" and ci' = ?i0
      and evs = "[Task ''GlanceImageList'']"
      and t' = 110 and glance' = "Inr []" and nova' = "Inr []", THEN conjunct2, THEN conjunct1]
  note d = staleness_gating [where self = ?dev and t = 100 and sresp = "Inr [?complete]"
      and cs = ?s0 and stks = "[?complete]" and cs' = ?cs
      and evs = "[Task ''StackList'']"
      and t' = 110 and sresp' = "Inr []", THEN conjunct2, THEN conjunct2]
  have ra: "Task ''VolumeList'' \<in> set (snd (snd
       (list_volumes ?dev 110 (Inr [?available]) None ?c0)))"
    using a v1 by simp
  have rb: "list_volumes ?dev 110 (Inr []) (Some False) ?cv = (Inr [?available], ?cv, [])"
    using b v2 by simp
  have rc: "Task ''GlanceImageList'' \<in> set (snd (snd
       (list_images ?dev 110 (Inr []) (Inr []) None ?i0)))"
    using c i1 by simp
  have rd: "list_stacks ?dev 110 (Inr []) ?cs = (Inr [?complete], ?cs, [])"
    using d s1 sub by simp
  show ?thesis
    using v1 ra rb rc rd by simp
qed

end
